theory Spec2Isabelle
  imports Main "HOL-Library.Word" "HOL-Library.Stream" "HOL-Library.Sublist"
begin

unbundle bit_operations_syntax

section \<open>Buffers, strings and errors\<close>

text \<open>
  A Node.js \<^verbatim>\<open>Buffer\<close> is a list of bytes. A JavaScript string is modelled by the
  bytes of its UTF-8 form, one \<^typ>\<open>char\<close> per byte, so that encoding a string as
  \<^verbatim>\<open>'utf8'\<close> is the representation map \<open>utf8\<close> and the length of \<open>utf8 s\<close> is the
  UTF-8 byte length of \<open>s\<close>.
\<close>

type_synonym byte = "8 word"
type_synonym buffer = "byte list"

definition utf8 :: "string \<Rightarrow> buffer" where
  "utf8 s = map of_char s"

definition chars_of :: "buffer \<Rightarrow> string" where
  "chars_of b = map (\<lambda>x. char_of (unat x)) b"

text \<open>
  Well-formed UTF-8 (Unicode, table 3-7): the byte sequences that are the UTF-8 form
  of some string. \<open>cont\<close> is a continuation byte \<^verbatim>\<open>80..BF\<close>.
\<close>

definition cont :: "byte \<Rightarrow> bool" where
  "cont b = (0x80 \<le> b \<and> b \<le> 0xBF)"

definition seq2 :: "byte \<Rightarrow> byte \<Rightarrow> bool" where
  "seq2 b0 b1 = (0xC2 \<le> b0 \<and> b0 \<le> 0xDF \<and> cont b1)"

definition seq3 :: "byte \<Rightarrow> byte \<Rightarrow> byte \<Rightarrow> bool" where
  "seq3 b0 b1 b2 =
     (cont b2 \<and>
      ((b0 = 0xE0 \<and> 0xA0 \<le> b1 \<and> b1 \<le> 0xBF) \<or>
       (0xE1 \<le> b0 \<and> b0 \<le> 0xEC \<and> cont b1) \<or>
       (b0 = 0xED \<and> 0x80 \<le> b1 \<and> b1 \<le> 0x9F) \<or>
       (0xEE \<le> b0 \<and> b0 \<le> 0xEF \<and> cont b1)))"

definition seq4 :: "byte \<Rightarrow> byte \<Rightarrow> byte \<Rightarrow> byte \<Rightarrow> bool" where
  "seq4 b0 b1 b2 b3 =
     (cont b2 \<and> cont b3 \<and>
      ((b0 = 0xF0 \<and> 0x90 \<le> b1 \<and> b1 \<le> 0xBF) \<or>
       (0xF1 \<le> b0 \<and> b0 \<le> 0xF3 \<and> cont b1) \<or>
       (b0 = 0xF4 \<and> 0x80 \<le> b1 \<and> b1 \<le> 0x8F)))"

fun valid_utf8 :: "buffer \<Rightarrow> bool" where
  "valid_utf8 [] = True"
| "valid_utf8 [b0] = (b0 < 0x80)"
| "valid_utf8 [b0, b1] = (if b0 < 0x80 then valid_utf8 [b1] else seq2 b0 b1)"
| "valid_utf8 [b0, b1, b2] =
     (if b0 < 0x80 then valid_utf8 [b1, b2]
      else if seq2 b0 b1 then valid_utf8 [b2]
      else seq3 b0 b1 b2)"
| "valid_utf8 (b0 # b1 # b2 # b3 # bs) =
     (if b0 < 0x80 then valid_utf8 (b1 # b2 # b3 # bs)
      else if seq2 b0 b1 then valid_utf8 (b2 # b3 # bs)
      else if seq3 b0 b1 b2 then valid_utf8 (b3 # bs)
      else seq4 b0 b1 b2 b3 \<and> valid_utf8 bs)"

text \<open>
  A thrown JavaScript error, as far as the code inspects one: \<^verbatim>\<open>error.response?.status\<close>
  and \<^verbatim>\<open>error.message\<close>.
\<close>

datatype js_error = JsError (status: "nat option") (message: string)

section \<open>The Node.js crypto and Buffer operations the codec calls\<close>

text \<open>
  The library functions the source imports are parameters of the model, with the
  arguments the source passes them:
  \<^item> \<open>pbkdf2Sync passphrase salt iterations keylen digest\<close>;
  \<^item> \<open>createCipheriv algorithm key iv plaintext\<close> is the run
    \<^verbatim>\<open>createCipheriv; update; final; getAuthTag\<close>: the cipher bytes
    \<^verbatim>\<open>Buffer.concat([update, final])\<close> and the tag, or the thrown error;
  \<^item> \<open>createDecipheriv algorithm key iv authTag encrypted\<close> is the run
    \<^verbatim>\<open>createDecipheriv; setAuthTag; update; final\<close>: the decrypted bytes, or the
    thrown error (a rejected key, nonce or tag, or a failed tag verification);
  \<^item> \<open>toString_base64\<close> and \<open>from_base64\<close> are \<^verbatim>\<open>buf.toString('base64')\<close> and
    \<^verbatim>\<open>Buffer.from(s, 'base64')\<close>; the latter never throws;
  \<^item> \<open>toString_utf8\<close> is \<^verbatim>\<open>buf.toString('utf8')\<close>.
\<close>

record node =
  pbkdf2Sync :: "string \<Rightarrow> buffer \<Rightarrow> nat \<Rightarrow> nat \<Rightarrow> string \<Rightarrow> buffer"
  createCipheriv :: "string \<Rightarrow> buffer \<Rightarrow> buffer \<Rightarrow> buffer \<Rightarrow> js_error + (buffer \<times> buffer)"
  createDecipheriv :: "string \<Rightarrow> buffer \<Rightarrow> buffer \<Rightarrow> buffer \<Rightarrow> buffer \<Rightarrow> js_error + buffer"
  toString_base64 :: "buffer \<Rightarrow> string"
  from_base64 :: "string \<Rightarrow> buffer"
  toString_utf8 :: "buffer \<Rightarrow> string"

text \<open>What the library documents of these operations, each as a predicate of its own.\<close>

definition pbkdf2_contract :: "node \<Rightarrow> bool" where
  "pbkdf2_contract L = (\<forall>p s c n d. length (pbkdf2Sync L p s c n d) = n)"

definition base64_contract :: "node \<Rightarrow> bool" where
  "base64_contract L = (\<forall>b. from_base64 L (toString_base64 L b) = b)"

definition utf8_contract :: "node \<Rightarrow> bool" where
  "utf8_contract L = (\<forall>b. valid_utf8 b \<longrightarrow> toString_utf8 L b = chars_of b)"

text \<open>
  AES-256-GCM with a 32-byte key and a 12-byte nonce encrypts every plaintext to as
  many cipher bytes and a 16-byte tag, and decrypts them back under the same key,
  nonce and tag.
\<close>

definition gcm_contract :: "node \<Rightarrow> bool" where
  "gcm_contract L =
     (\<forall>key iv pt. length key = 32 \<and> length iv = 12 \<longrightarrow>
        (\<exists>ct tag. createCipheriv L ''aes-256-gcm'' key iv pt = Inr (ct, tag)
           \<and> length ct = length pt \<and> length tag = 16
           \<and> createDecipheriv L ''aes-256-gcm'' key iv tag ct = Inr pt))"

text \<open>
  \<^verbatim>\<open>crypto.randomBytes(n)\<close> reads the next \<open>n\<close> bytes of the random source, an
  endless tape of bytes, and leaves the rest of the tape for the next call.
\<close>

definition randomBytes :: "nat \<Rightarrow> byte stream \<Rightarrow> buffer \<times> byte stream" where
  "randomBytes n src = (stake n src, sdrop n src)"

section \<open>The codec (crypto.ts)\<close>

definition PBKDF2_ITERATIONS :: nat where
  "PBKDF2_ITERATIONS = 100000"

definition SALT_LENGTH :: nat where
  "SALT_LENGTH = 16"

definition IV_LENGTH :: nat where
  "IV_LENGTH = 12"

definition KEY_LENGTH :: nat where
  "KEY_LENGTH = 32"

definition deriveKey :: "node \<Rightarrow> string \<Rightarrow> buffer \<Rightarrow> buffer" where
  "deriveKey L passphrase salt =
     pbkdf2Sync L passphrase salt PBKDF2_ITERATIONS KEY_LENGTH ''sha256''"

record sealed =
  encrypted :: string
  sealed_salt :: string
  sealed_iv :: string

definition encryptContent ::
  "node \<Rightarrow> byte stream \<Rightarrow> string \<Rightarrow> string \<Rightarrow> js_error + (sealed \<times> byte stream)" where
  "encryptContent L src content passphrase =
     (let (salt, src1) = randomBytes SALT_LENGTH src;
          (iv, src2) = randomBytes IV_LENGTH src1;
          key = deriveKey L passphrase salt
      in case createCipheriv L ''aes-256-gcm'' key iv (utf8 content) of
           Inl e \<Rightarrow> Inl e
         | Inr (enc, authTag) \<Rightarrow>
             Inr (\<lparr>encrypted = toString_base64 L (enc @ authTag),
                   sealed_salt = toString_base64 L salt,
                   sealed_iv = toString_base64 L iv\<rparr>, src2))"

text \<open>
  \<^verbatim>\<open>buf.slice(-16)\<close> is the last 16 bytes, the whole buffer when it is shorter;
  \<^verbatim>\<open>buf.slice(0, -16)\<close> is what stands before them, nothing when it is shorter.
\<close>

definition slice_last :: "nat \<Rightarrow> buffer \<Rightarrow> buffer" where
  "slice_last k b = drop (length b - k) b"

definition slice_front :: "nat \<Rightarrow> buffer \<Rightarrow> buffer" where
  "slice_front k b = take (length b - k) b"

definition decryptContent ::
  "node \<Rightarrow> string \<Rightarrow> string \<Rightarrow> string \<Rightarrow> string \<Rightarrow> js_error + string" where
  "decryptContent L encryptedBase64 passphrase saltBase64 ivBase64 =
     (let encryptedWithTag = from_base64 L encryptedBase64;
          salt = from_base64 L saltBase64;
          iv = from_base64 L ivBase64;
          key = deriveKey L passphrase salt;
          authTag = slice_last 16 encryptedWithTag;
          enc = slice_front 16 encryptedWithTag
      in case createDecipheriv L ''aes-256-gcm'' key iv authTag enc of
           Inl e \<Rightarrow> Inl e
         | Inr decrypted \<Rightarrow> Inr (toString_utf8 L decrypted))"

section \<open>Pastes as the store delivers them\<close>

text \<open>
  A file of a paste payload; \<open>salt\<close> and \<open>iv\<close> are present on a sealed file. A payload is
  \<^verbatim>\<open>response.data\<close>: an object with its \<open>files\<close> (an absent array is the empty
  list: the code treats both alike, up to the text of a TypeError), or \<open>None\<close> for a
  \<^verbatim>\<open>null\<close> body.
\<close>

record paste_file =
  name :: string
  content :: string
  language :: string
  isMain :: bool
  salt :: "string option"
  iv :: "string option"

record paste_obj =
  files :: "paste_file list"

text \<open>JavaScript truthiness of an optional string: present and not empty.\<close>

definition truthy :: "string option \<Rightarrow> bool" where
  "truthy v = (case v of None \<Rightarrow> False | Some s \<Rightarrow> s \<noteq> [])"

text \<open>\<^verbatim>\<open>s.includes(sub)\<close>.\<close>

fun str_includes :: "string \<Rightarrow> string \<Rightarrow> bool" where
  "str_includes [] sub = (sub = [])"
| "str_includes (c # cs) sub = (prefix sub (c # cs) \<or> str_includes cs sub)"

definition is403 :: "js_error \<Rightarrow> bool" where
  "is403 e = (status e = Some 403 \<or> str_includes (message e) ''403'')"

section \<open>The tree provider (pastesProvider.ts)\<close>

text \<open>
  The source tree holds the provider class in \<^verbatim>\<open>api.ts\<close>, after the API client; the
  line numbers below are those of that file. The provider's state is its two maps:
  \<open>pasteCache\<close> (fetched payloads) and \<open>unlockedPastes\<close> (the sessions: payload and
  passphrase of an unlocked paste). Of a paste element only the fields \<^verbatim>\<open>getChildren\<close>
  reads are kept.
\<close>

record unlocked =
  paste :: "paste_obj option"
  passphrase :: string

record provider =
  pasteCache :: "string \<Rightarrow> paste_obj option option"
  unlockedPastes :: "string \<Rightarrow> unlocked option"

record paste_item =
  title :: string
  paste_id :: string
  isPasswordProtected :: bool

record file_item =
  fileName :: string
  item_content :: string
  item_language :: string
  item_isMain :: bool
  pasteId :: string
  fileIndex :: nat
  isEncrypted :: bool

text \<open>
  What one call does to its collaborators, in order: the passphrase prompt (with the
  title it shows), the messages, and the calls to the remote store.
\<close>

datatype event =
    Prompt string
  | WarningMessage string
  | ErrorMessage string
  | InformationMessage string
  | UnlockCall string string
  | GetCall string
  | UpdateCall string "paste_file list"
  | ExecuteCommand string
  | TreeRefresh

text \<open>
  The collaborators of one call: what the user answers to the passphrase prompt
  (\<open>None\<close> when the prompt is dismissed), what the store answers to each request
  (\<open>Inl\<close> the thrown error), and the button the user picks on an information message.
  One call prompts at most once and sends each kind of request at most once, so one
  answer per prompt and per request describes the collaborators of a call; a later call
  has collaborators of its own.
\<close>

record world =
  showInputBox :: "string option"
  unlockPaste :: "string \<Rightarrow> string \<Rightarrow> js_error + paste_obj option"
  getPaste :: "string \<Rightarrow> js_error + paste_obj option"
  updatePaste :: "string \<Rightarrow> paste_file list \<Rightarrow> js_error + paste_obj option"
  pickedAction :: "string option"

definition refresh :: "provider \<Rightarrow> provider" where
  "refresh st = st\<lparr>pasteCache := Map.empty, unlockedPastes := Map.empty\<rparr>"

text \<open>
  The body of a file item (lines 173-182): decrypted when there is a passphrase and the
  file has salt and iv, the marker when that throws.
\<close>

fun fileContent :: "node \<Rightarrow> string option \<Rightarrow> paste_file \<Rightarrow> string" where
  "fileContent L None file = content file"
| "fileContent L (Some pw) file =
     (case salt file of
        None \<Rightarrow> content file
      | Some s \<Rightarrow>
          (case iv file of
             None \<Rightarrow> content file
           | Some v \<Rightarrow>
               if pw \<noteq> [] \<and> s \<noteq> [] \<and> v \<noteq> []
               then (case decryptContent L (content file) pw s v of
                       Inr decrypted \<Rightarrow> decrypted
                     | Inl decryptError \<Rightarrow> ''[Decryption failed]'')
               else content file))"

definition fileItems ::
  "node \<Rightarrow> string option \<Rightarrow> paste_item \<Rightarrow> paste_file list \<Rightarrow> file_item list" where
  "fileItems L pass element fs =
     map (\<lambda>(index, file).
            \<lparr>fileName = name file, item_content = fileContent L pass file,
             item_language = language file, item_isMain = isMain file,
             pasteId = paste_id element, fileIndex = index,
             isEncrypted = isPasswordProtected element\<rparr>)
         (enumerate 0 fs)"

text \<open>The same for a paste unlocked in the error handler (lines 213-223).\<close>

definition unlockedContent :: "node \<Rightarrow> string \<Rightarrow> paste_file \<Rightarrow> string" where
  "unlockedContent L password file =
     (case salt file of
        None \<Rightarrow> content file
      | Some s \<Rightarrow>
          (case iv file of
             None \<Rightarrow> content file
           | Some v \<Rightarrow>
               if s \<noteq> [] \<and> v \<noteq> []
               then (case decryptContent L (content file) password s v of
                       Inr decrypted \<Rightarrow> decrypted
                     | Inl e \<Rightarrow> ''[Decryption failed]'')
               else content file))"

definition unlockedItems ::
  "node \<Rightarrow> string \<Rightarrow> paste_item \<Rightarrow> paste_file list \<Rightarrow> file_item list" where
  "unlockedItems L password element fs =
     map (\<lambda>(index, file).
            \<lparr>fileName = name file, item_content = unlockedContent L password file,
             item_language = language file, item_isMain = isMain file,
             pasteId = paste_id element, fileIndex = index, isEncrypted = True\<rparr>)
         (enumerate 0 fs)"

text \<open>
  The TypeErrors of the engine (V8) the code can run into: reading \<^verbatim>\<open>paste.files\<close> of a
  \<^verbatim>\<open>null\<close> payload, and assigning \<^verbatim>\<open>content\<close> on a file index that is not there.
\<close>

definition cannotReadFiles :: js_error where
  "cannotReadFiles =
     JsError None (''Cannot read properties of null (reading '' @ [CHR 0x27] @ ''files''
                     @ [CHR 0x27] @ '')'')"

definition cannotSetContent :: js_error where
  "cannotSetContent =
     JsError None (''Cannot set properties of undefined (setting '' @ [CHR 0x27] @ ''content''
                     @ [CHR 0x27] @ '')'')"

text \<open>Lines 168-195: the items of a resolved payload that is an object.\<close>

definition render ::
  "node \<Rightarrow> provider \<Rightarrow> paste_item \<Rightarrow> paste_obj \<Rightarrow> file_item list" where
  "render L st element obj =
     (if files obj \<noteq> []
      then fileItems L (map_option passphrase (unlockedPastes st (paste_id element)))
             element (files obj)
      else [])"

text \<open>
  Line 162: \<^verbatim>\<open>this.unlockedPastes.get(id)?.paste || this.pasteCache.get(id)\<close>, \<open>None\<close>
  when the result is falsy.
\<close>

definition cachedPaste :: "provider \<Rightarrow> string \<Rightarrow> paste_obj option" where
  "cachedPaste st i =
     (case (case unlockedPastes st i of None \<Rightarrow> None | Some u \<Rightarrow> paste u) of
        Some obj \<Rightarrow> Some obj
      | None \<Rightarrow> (case pasteCache st i of None \<Rightarrow> None | Some cached \<Rightarrow> cached))"

text \<open>
  Lines 196-231: the handler of an error \<open>e\<close> thrown while the files were resolved; \<open>tr\<close>
  is what the call has done so far.
\<close>

definition onError ::
  "node \<Rightarrow> world \<Rightarrow> provider \<Rightarrow> paste_item \<Rightarrow> js_error \<Rightarrow> event list
     \<Rightarrow> file_item list \<times> provider \<times> event list" where
  "onError L w st element e tr =
     (if is403 e \<and> unlockedPastes st (paste_id element) = None
      then (case showInputBox w of
              None \<Rightarrow> ([], st, tr @ [Prompt (title element)])
            | Some password \<Rightarrow>
                if password = [] then ([], st, tr @ [Prompt (title element)])
                else (case unlockPaste w (paste_id element) password of
                        Inl unlockError \<Rightarrow>
                          ([], st, tr @ [Prompt (title element),
                                         UnlockCall (paste_id element) password,
                                         ErrorMessage ''Incorrect passphrase''])
                      | Inr unlockedPaste \<Rightarrow>
                          (let st' = st\<lparr>unlockedPastes := (unlockedPastes st)
                                 (paste_id element \<mapsto>
                                    \<lparr>paste = unlockedPaste, passphrase = password\<rparr>)\<rparr>;
                               tr' = tr @ [Prompt (title element),
                                           UnlockCall (paste_id element) password]
                           in case unlockedPaste of
                                None \<Rightarrow> ([], st', tr' @ [ErrorMessage ''Incorrect passphrase''])
                              | Some obj \<Rightarrow>
                                  (if files obj \<noteq> []
                                   then unlockedItems L password element (files obj)
                                   else [], st', tr'))))
      else ([], st, tr))"

text \<open>
  Lines 161-195 inside the \<^verbatim>\<open>try\<close> of line 137: a failed fetch, and the TypeError on
  a fetched \<^verbatim>\<open>null\<close> payload (thrown after the payload was cached), go to the handler.
\<close>

definition resolve ::
  "node \<Rightarrow> world \<Rightarrow> provider \<Rightarrow> paste_item \<Rightarrow> event list
     \<Rightarrow> file_item list \<times> provider \<times> event list" where
  "resolve L w st element tr =
     (case cachedPaste st (paste_id element) of
        Some obj \<Rightarrow> (render L st element obj, st, tr)
      | None \<Rightarrow>
          (case getPaste w (paste_id element) of
             Inl e \<Rightarrow> onError L w st element e (tr @ [GetCall (paste_id element)])
           | Inr fetched \<Rightarrow>
               (let st' = st\<lparr>pasteCache := (pasteCache st)(paste_id element \<mapsto> fetched)\<rparr>
                in case fetched of
                     None \<Rightarrow>
                       onError L w st' element cannotReadFiles
                         (tr @ [GetCall (paste_id element)])
                   | Some obj \<Rightarrow>
                       (render L st' element obj, st', tr @ [GetCall (paste_id element)]))))"

text \<open>
  \<^verbatim>\<open>getChildren(element)\<close> for a paste element: the items returned, the provider's maps
  afterwards, and what the call did.
\<close>

definition getChildren ::
  "node \<Rightarrow> world \<Rightarrow> provider \<Rightarrow> paste_item \<Rightarrow> file_item list \<times> provider \<times> event list" where
  "getChildren L w st element =
     (if isPasswordProtected element \<and> unlockedPastes st (paste_id element) = None
      then (case showInputBox w of
              None \<Rightarrow> ([], st, [Prompt (title element), WarningMessage ''Paste access cancelled''])
            | Some password \<Rightarrow>
                if password = []
                then ([], st, [Prompt (title element), WarningMessage ''Paste access cancelled''])
                else (case unlockPaste w (paste_id element) password of
                        Inl e \<Rightarrow>
                          ([], st, [Prompt (title element),
                                    UnlockCall (paste_id element) password,
                                    ErrorMessage ''Incorrect passphrase''])
                      | Inr unlockedPaste \<Rightarrow>
                          resolve L w
                            (st\<lparr>unlockedPastes := (unlockedPastes st)
                                 (paste_id element \<mapsto>
                                    \<lparr>paste = unlockedPaste, passphrase = password\<rparr>)\<rparr>)
                            element
                            [Prompt (title element), UnlockCall (paste_id element) password]))
      else resolve L w st element [])"

section \<open>The API client's create request (api.ts)\<close>

datatype visibility = Public | Private

datatype algorithm = Aes | Des | Rc4

record CreatePasteOptions =
  opt_title :: string
  opt_fileName :: string
  opt_content :: string
  opt_language :: string
  opt_visibility :: "visibility option"
  opt_encryptionLevel :: "algorithm option"
  opt_isPasswordProtected :: "bool option"
  opt_password :: "string option"
  opt_salt :: "string option"
  opt_iv :: "string option"

text \<open>The body of \<^verbatim>\<open>POST /api/pastes\<close>.\<close>

record create_payload =
  p_title :: string
  p_files :: "paste_file list"
  p_visibility :: visibility
  p_isPasswordProtected :: bool
  p_encryptionLevel :: "algorithm option"
  p_password :: "string option"

definition api_createPaste :: "CreatePasteOptions \<Rightarrow> create_payload" where
  "api_createPaste options =
     (let sealedFile = truthy (opt_salt options) \<and> truthy (opt_iv options)
      in \<lparr>p_title = opt_title options,
          p_files = [\<lparr>name = opt_fileName options, content = opt_content options,
                      language = opt_language options, isMain = True,
                      salt = (if sealedFile then opt_salt options else None),
                      iv = (if sealedFile then opt_iv options else None)\<rparr>],
          p_visibility = (case opt_visibility options of None \<Rightarrow> Public | Some v \<Rightarrow> v),
          p_isPasswordProtected =
            (case opt_isPasswordProtected options of None \<Rightarrow> False | Some b \<Rightarrow> b),
          p_encryptionLevel = opt_encryptionLevel options,
          p_password = (if truthy (opt_password options) then opt_password options else None)\<rparr>)"

section \<open>Creating a paste (extension.ts)\<close>

text \<open>
  What the user answers to the five dialogs of \<^verbatim>\<open>createPaste\<close>, \<open>None\<close> for a dialog
  that is dismissed. An input box with a validator returns only values the validator
  accepts; the model admits every value.
\<close>

record create_dialog =
  ask_title :: "string option"
  pick_visibility :: "visibility option"
  pick_algorithm :: "algorithm option"
  ask_passphrase :: "string option"
  ask_confirm :: "string option"

text \<open>
  How \<^verbatim>\<open>createPaste\<close> ends: it returns early, \<^verbatim>\<open>encryptContent\<close> throws (an error
  message is shown), or the request body is handed to \<^verbatim>\<open>api.createPaste\<close>.
\<close>

datatype create_outcome = Cancelled | Failed js_error | Posted create_payload

definition createPaste ::
  "node \<Rightarrow> byte stream \<Rightarrow> create_dialog \<Rightarrow> string \<Rightarrow> string \<Rightarrow> string \<Rightarrow> create_outcome" where
  "createPaste L src dlg fileName' content' language' =
     (case ask_title dlg of
        None \<Rightarrow> Cancelled
      | Some title' \<Rightarrow>
          if title' = [] then Cancelled
          else (case pick_visibility dlg of
             None \<Rightarrow> Cancelled
           | Some vis \<Rightarrow>
               (let pasteOptions =
                      \<lparr>opt_title = title', opt_fileName = fileName',
                       opt_content = toString_base64 L (utf8 content'),
                       opt_language = language', opt_visibility = Some vis,
                       opt_encryptionLevel = None, opt_isPasswordProtected = None,
                       opt_password = None, opt_salt = None, opt_iv = None\<rparr>
                in if vis = Private
                   then (case pick_algorithm dlg of
                      None \<Rightarrow> Cancelled
                    | Some alg \<Rightarrow>
                        (case ask_passphrase dlg of
                           None \<Rightarrow> Cancelled
                         | Some pass \<Rightarrow>
                             if pass = [] then Cancelled
                             else (case ask_confirm dlg of
                                None \<Rightarrow> Cancelled
                              | Some confirmPassphrase \<Rightarrow>
                                  if confirmPassphrase = [] then Cancelled
                                  else (case encryptContent L src content' pass of
                                     Inl e \<Rightarrow> Failed e
                                   | Inr (enc, src') \<Rightarrow>
                                       Posted (api_createPaste
                                         (pasteOptions\<lparr>opt_content := encrypted enc,
                                            opt_encryptionLevel := Some alg,
                                            opt_isPasswordProtected := Some True,
                                            opt_password := Some pass,
                                            opt_salt := Some (sealed_salt enc),
                                            opt_iv := Some (sealed_iv enc)\<rparr>))))))
                   else Posted (api_createPaste pasteOptions))))"

section \<open>Tracked documents and saving (documentTracker.ts, extension.ts)\<close>

record metadata =
  md_pasteId :: string
  md_fileIndex :: nat
  md_fileName :: string
  md_language :: string

definition trackDocument ::
  "string \<Rightarrow> metadata \<Rightarrow> (string \<Rightarrow> metadata option) \<Rightarrow> (string \<Rightarrow> metadata option)" where
  "trackDocument uri md documentMetadataMap = documentMetadataMap(uri \<mapsto> md)"

definition getDocumentMetadata ::
  "string \<Rightarrow> (string \<Rightarrow> metadata option) \<Rightarrow> metadata option" where
  "getDocumentMetadata uri documentMetadataMap = documentMetadataMap uri"

text \<open>The active editor's document: its URI and its current text.\<close>

record editor =
  doc_uri :: string
  doc_text :: string

text \<open>
  The command \<^verbatim>\<open>pastezen.saveToPastezen\<close>: the provider's maps afterwards and what
  the command did. The information message of a save shows a check mark before its
  text, left out here.
\<close>

definition saveToPastezen ::
  "world \<Rightarrow> (string \<Rightarrow> metadata option) \<Rightarrow> provider \<Rightarrow> editor option
     \<Rightarrow> provider \<times> event list" where
  "saveToPastezen w documentMetadataMap st activeTextEditor =
     (case activeTextEditor of
        None \<Rightarrow> (st, [ErrorMessage ''No active editor''])
      | Some ed \<Rightarrow>
          (case getDocumentMetadata (doc_uri ed) documentMetadataMap of
             None \<Rightarrow>
               (st, InformationMessage ''This document is not linked to a Pastezen paste.''
                      # (if pickedAction w = Some ''Create New Paste''
                         then [ExecuteCommand ''pastezen.createPasteFromFile''] else []))
           | Some md \<Rightarrow>
               (case getPaste w (md_pasteId md) of
                  Inl e \<Rightarrow>
                    (st, [GetCall (md_pasteId md),
                          ErrorMessage (''Failed to save: '' @ message e)])
                | Inr None \<Rightarrow>
                    (st, [GetCall (md_pasteId md),
                          ErrorMessage (''Failed to save: '' @ message cannotReadFiles)])
                | Inr (Some obj) \<Rightarrow>
                    if md_fileIndex md < length (files obj)
                    then (let fs = (files obj)
                                [md_fileIndex md :=
                                   (files obj ! md_fileIndex md)\<lparr>content := doc_text ed\<rparr>]
                          in case updatePaste w (md_pasteId md) fs of
                               Inl e \<Rightarrow>
                                 (st, [GetCall (md_pasteId md), UpdateCall (md_pasteId md) fs,
                                       ErrorMessage (''Failed to save: '' @ message e)])
                             | Inr response \<Rightarrow>
                                 (refresh st,
                                  [GetCall (md_pasteId md), UpdateCall (md_pasteId md) fs,
                                   InformationMessage (''Saved to Pastezen: '' @ md_fileName md),
                                   TreeRefresh]))
                    else (st, [GetCall (md_pasteId md),
                               ErrorMessage (''Failed to save: '' @ message cannotSetContent)]))))"

section \<open>A platform to run the model on\<close>

text \<open>
  A stand-in for the library that meets every contract above, so that the model runs
  on concrete inputs: base64 as RFC 4648 defines it (decoding as leniently as Node does:
  it stops at the first \<^verbatim>\<open>=\<close>, skips what is not in the alphabet and accepts the
  URL-safe alphabet), and in place of PBKDF2 and AES-GCM a toy key derivation and a toy
  authenticated cipher that accept what Node accepts (a salt of any length, a nonce of
  any length but zero, a 32-byte key).
\<close>

definition b64_char :: "nat \<Rightarrow> char" where
  "b64_char n =
     (if n < 26 then char_of (65 + n)
      else if n < 52 then char_of (71 + n)
      else if n < 62 then char_of (n - 4)
      else if n = 62 then CHR ''+'' else CHR ''/'')"

definition b64_value :: "char \<Rightarrow> nat option" where
  "b64_value c =
     (let k = (of_char c :: nat) in
      if 65 \<le> k \<and> k \<le> 90 then Some (k - 65)
      else if 97 \<le> k \<and> k \<le> 122 then Some (k - 71)
      else if 48 \<le> k \<and> k \<le> 57 then Some (k + 4)
      else if c = CHR ''+'' \<or> c = CHR ''-'' then Some 62
      else if c = CHR ''/'' \<or> c = CHR ''_'' then Some 63
      else None)"

fun b64_encode :: "nat list \<Rightarrow> string" where
  "b64_encode (a # b # c # bs) =
     b64_char (a div 4) # b64_char ((a mod 4) * 16 + b div 16)
       # b64_char ((b mod 16) * 4 + c div 64) # b64_char (c mod 64) # b64_encode bs"
| "b64_encode [a, b] =
     [b64_char (a div 4), b64_char ((a mod 4) * 16 + b div 16), b64_char ((b mod 16) * 4),
      CHR ''='']"
| "b64_encode [a] = [b64_char (a div 4), b64_char ((a mod 4) * 16), CHR ''='', CHR ''='']"
| "b64_encode [] = []"

fun b64_groups :: "nat list \<Rightarrow> nat list" where
  "b64_groups (s0 # s1 # s2 # s3 # ss) =
     (s0 * 4 + s1 div 16) # ((s1 mod 16) * 16 + s2 div 4) # ((s2 mod 4) * 64 + s3)
       # b64_groups ss"
| "b64_groups [s0, s1, s2] = [s0 * 4 + s1 div 16, (s1 mod 16) * 16 + s2 div 4]"
| "b64_groups [s0, s1] = [s0 * 4 + s1 div 16]"
| "b64_groups ss = []"

definition b64_decode :: "string \<Rightarrow> nat list" where
  "b64_decode s = b64_groups (List.map_filter b64_value (takeWhile (\<lambda>c. c \<noteq> CHR ''='') s))"

definition demo_toBase64 :: "buffer \<Rightarrow> string" where
  "demo_toBase64 b = b64_encode (map unat b)"

definition demo_fromBase64 :: "string \<Rightarrow> buffer" where
  "demo_fromBase64 s = map of_nat (b64_decode s)"

definition demo_pbkdf2 :: "string \<Rightarrow> buffer \<Rightarrow> nat \<Rightarrow> nat \<Rightarrow> string \<Rightarrow> buffer" where
  "demo_pbkdf2 p s c n d = map (\<lambda>i. of_nat i + foldr (+) (utf8 p @ s) (of_nat (c mod 256))) [0..<n]"

definition demo_mask :: "buffer \<Rightarrow> buffer \<Rightarrow> byte" where
  "demo_mask key nonce = foldr (+) (key @ nonce) 0"

definition demo_tag :: "buffer \<Rightarrow> buffer \<Rightarrow> buffer \<Rightarrow> buffer" where
  "demo_tag key nonce ct = map (\<lambda>i. of_nat i + foldr (+) ct (demo_mask key nonce)) [0..<16]"

definition demo_cipher ::
  "string \<Rightarrow> buffer \<Rightarrow> buffer \<Rightarrow> buffer \<Rightarrow> js_error + (buffer \<times> buffer)" where
  "demo_cipher alg key nonce pt =
     (if alg = ''aes-256-gcm'' \<and> length key = 32 \<and> nonce \<noteq> []
      then (let ct = map (\<lambda>b. b XOR demo_mask key nonce) pt
            in Inr (ct, demo_tag key nonce ct))
      else Inl (JsError None ''Invalid key length''))"

definition demo_decipher ::
  "string \<Rightarrow> buffer \<Rightarrow> buffer \<Rightarrow> buffer \<Rightarrow> buffer \<Rightarrow> js_error + buffer" where
  "demo_decipher alg key nonce authTag ct =
     (if alg = ''aes-256-gcm'' \<and> length key = 32 \<and> nonce \<noteq> []
      then (if authTag = demo_tag key nonce ct
            then Inr (map (\<lambda>b. b XOR demo_mask key nonce) ct)
            else Inl (JsError None ''Unsupported state or unable to authenticate data''))
      else Inl (JsError None ''Invalid key length''))"

definition demo :: node where
  "demo = \<lparr>pbkdf2Sync = demo_pbkdf2, createCipheriv = demo_cipher,
           createDecipheriv = demo_decipher, toString_base64 = demo_toBase64,
           from_base64 = demo_fromBase64, toString_utf8 = chars_of\<rparr>"

text \<open>A random source to run sealing on: the bytes 1, 8, 15 and so on.\<close>

definition demo_source :: "byte stream" where
  "demo_source = siterate (\<lambda>b. b + 7) 1"

text \<open>
  A paste of two files on that platform: the first sealed under \<^verbatim>\<open>correct-horse\<close>, the
  second under \<^verbatim>\<open>other-pass\<close>; the elements of the tree that show it; a provider that
  has cached nothing; and three stores: one that accepts every request, one that
  answers every request with status 403, and one that accepts an unlock with a
  \<^verbatim>\<open>null\<close> body and answers a fetch with status 403.
\<close>

definition demo_hello :: paste_file where
  "demo_hello =
     \<lparr>name = ''hello.txt'', content = ''+fT9/f6x5v7j/fXg4eLj5OXm5+jp6uvs7e7v'',
      language = ''plaintext'', isMain = True,
      salt = Some ''ZmVkY2JhOTg3NjU0MzIxMA=='', iv = Some ''bm9uY2UtMDAwMDAx''\<rparr>"

definition demo_second :: paste_file where
  "demo_second =
     \<lparr>name = ''second.txt'', content = ''ITcxPTw2cjQ7Pjfg4eLj5OXm5+jp6uvs7e7v'',
      language = ''plaintext'', isMain = False,
      salt = Some ''ZmVkY2JhOTg3NjU0MzIxMA=='', iv = Some ''bm9uY2UtMDAwMDAy''\<rparr>"

definition demo_paste :: paste_obj where
  "demo_paste = \<lparr>files = [demo_hello, demo_second]\<rparr>"

definition protected_A :: paste_item where
  "protected_A = \<lparr>title = ''notes'', paste_id = ''A'', isPasswordProtected = True\<rparr>"

definition public_A :: paste_item where
  "public_A = \<lparr>title = ''notes'', paste_id = ''A'', isPasswordProtected = False\<rparr>"

definition nothing_cached :: provider where
  "nothing_cached = \<lparr>pasteCache = Map.empty, unlockedPastes = Map.empty\<rparr>"

definition forbidden :: js_error where
  "forbidden = JsError (Some 403) ''Request failed with status code 403''"

definition store_accepts :: world where
  "store_accepts =
     \<lparr>showInputBox = Some ''correct-horse'',
      unlockPaste = (\<lambda>i p. Inr (Some demo_paste)),
      getPaste = (\<lambda>i. Inr (Some demo_paste)),
      updatePaste = (\<lambda>i fs. Inr (Some \<lparr>files = fs\<rparr>)),
      pickedAction = None\<rparr>"

definition store_denies :: world where
  "store_denies =
     \<lparr>showInputBox = Some ''wrong-pass'',
      unlockPaste = (\<lambda>i p. Inl forbidden),
      getPaste = (\<lambda>i. Inl forbidden),
      updatePaste = (\<lambda>i fs. Inl forbidden),
      pickedAction = None\<rparr>"

definition store_null :: world where
  "store_null =
     \<lparr>showInputBox = Some ''correct-horse'',
      unlockPaste = (\<lambda>i p. Inr None),
      getPaste = (\<lambda>i. Inl forbidden),
      updatePaste = (\<lambda>i fs. Inl forbidden),
      pickedAction = None\<rparr>"

text \<open>
  A private paste being created with RC4 picked, and a tracked document: the first file
  of paste \<^verbatim>\<open>A\<close>, edited.
\<close>

definition demo_dialog :: "algorithm \<Rightarrow> create_dialog" where
  "demo_dialog alg =
     \<lparr>ask_title = Some ''notes'', pick_visibility = Some Private,
      pick_algorithm = Some alg, ask_passphrase = Some ''correct-horse'',
      ask_confirm = Some ''correct-horse''\<rparr>"

definition demo_tracker :: "string \<Rightarrow> metadata option" where
  "demo_tracker =
     trackDocument ''untitled:Untitled-1''
       \<lparr>md_pasteId = ''A'', md_fileIndex = 0, md_fileName = ''hello.txt'',
        md_language = ''plaintext''\<rparr> Map.empty"

definition demo_editor :: editor where
  "demo_editor = \<lparr>doc_uri = ''untitled:Untitled-1'', doc_text = ''hello again''\<rparr>"

section \<open>Facts about bytes, slices and the platform\<close>

lemma byte_of_char_of: "(of_char (char_of (unat (x::byte))) :: byte) = x"
proof -
  have "(of_char (char_of (unat x)) :: byte) = of_nat (of_char (char_of (unat x)))"
    by (simp only: of_nat_of_char)
  also have "\<dots> = of_nat (unat x mod 256)" by simp
  also have "\<dots> = x"
    using unsigned_less[of x, where 'a=nat] by simp
  finally show ?thesis .
qed

lemma char_of_byte_of: "char_of (unat (of_char c :: byte)) = c"
proof -
  have "unat (of_char c :: byte) = unat (of_nat (of_char c) :: byte)"
    by (simp only: of_nat_of_char)
  also have "\<dots> = of_char c mod 256" by (simp add: unat_of_nat)
  finally show ?thesis by simp
qed

lemma utf8_chars_of: "utf8 (chars_of b) = b"
  by (simp add: utf8_def chars_of_def comp_def byte_of_char_of)

lemma chars_of_utf8: "chars_of (utf8 s) = s"
  by (simp add: utf8_def chars_of_def comp_def char_of_byte_of)

lemma b64_value_char: "n < 64 \<Longrightarrow> b64_value (b64_char n) = Some n"
  by (auto simp add: b64_value_def b64_char_def Let_def)

lemma b64_value_pad: "b64_value CHR ''='' = None"
  by (simp add: b64_value_def)

lemma b64_char_not_pad: "n < 64 \<Longrightarrow> b64_char n \<noteq> CHR ''=''"
  using b64_value_char[of n] b64_value_pad by auto

lemma b64_step:
  "n < 64 \<Longrightarrow>
   List.map_filter b64_value (takeWhile (\<lambda>c. c \<noteq> CHR ''='') (b64_char n # cs)) =
   n # List.map_filter b64_value (takeWhile (\<lambda>c. c \<noteq> CHR ''='') cs)"
  by (simp add: b64_char_not_pad b64_value_char map_filter_simps)

lemma b64_stop:
  "List.map_filter b64_value (takeWhile (\<lambda>c. c \<noteq> CHR ''='') (CHR ''='' # cs)) = []"
  by (simp add: map_filter_simps)

lemma b64_join1:
  "a < 256 \<Longrightarrow> b < 256 \<Longrightarrow> (a div 4) * 4 + ((a mod 4) * 16 + b div 16) div 16 = (a::nat)"
  by simp

lemma b64_join2:
  "a < 256 \<Longrightarrow> b < 256 \<Longrightarrow> c < 256 \<Longrightarrow>
   (((a mod 4) * 16 + b div 16) mod 16) * 16 + ((b mod 16) * 4 + c div 64) div 4 = (b::nat)"
  by simp

lemma b64_join3:
  "b < 256 \<Longrightarrow> c < 256 \<Longrightarrow> (((b mod 16) * 4 + c div 64) mod 4) * 64 + c mod 64 = (c::nat)"
  by simp

lemma b64_decode_encode: "\<forall>x \<in> set bs. x < 256 \<Longrightarrow> b64_decode (b64_encode bs) = bs"
proof (induction bs rule: b64_encode.induct)
  case (1 a b c bs)
  then have ab: "a < 256" "b < 256" "c < 256" by simp_all
  have s: "a div 4 < 64" "(a mod 4) * 16 + b div 16 < 64" "(b mod 16) * 4 + c div 64 < 64"
      "c mod 64 < 64"
    using ab by simp_all
  have ih: "b64_decode (b64_encode bs) = bs" using 1 by simp
  have v: "(a div 4) * 4 + ((a mod 4) * 16 + b div 16) div 16 = a"
      "(((a mod 4) * 16 + b div 16) mod 16) * 16 + ((b mod 16) * 4 + c div 64) div 4 = b"
      "(((b mod 16) * 4 + c div 64) mod 4) * 64 + c mod 64 = c"
    using ab b64_join1[of a b] b64_join2[of a b c] b64_join3[of b c] by simp_all
  show ?case
    using ih unfolding b64_decode_def
    by (simp only: b64_encode.simps b64_step[OF s(1)] b64_step[OF s(2)] b64_step[OF s(3)]
        b64_step[OF s(4)] b64_groups.simps v)
next
  case (2 a b)
  then have ab: "a < 256" "b < 256" by simp_all
  have s: "a div 4 < 64" "(a mod 4) * 16 + b div 16 < 64" "(b mod 16) * 4 < 64"
    using ab by simp_all
  have v: "(a div 4) * 4 + ((a mod 4) * 16 + b div 16) div 16 = a"
      "(((a mod 4) * 16 + b div 16) mod 16) * 16 + ((b mod 16) * 4) div 4 = b"
    using ab b64_join1[of a b] b64_join2[of a b 0] by simp_all
  show ?case
    unfolding b64_decode_def
    by (simp only: b64_encode.simps b64_step[OF s(1)] b64_step[OF s(2)] b64_step[OF s(3)]
        b64_stop b64_groups.simps v)
next
  case (3 a)
  then have ab: "a < 256" by simp
  have s: "a div 4 < 64" "(a mod 4) * 16 < 64"
    using ab by simp_all
  have v: "(a div 4) * 4 + ((a mod 4) * 16) div 16 = a"
    using ab b64_join1[of a 0] by simp
  show ?case
    unfolding b64_decode_def
    by (simp only: b64_encode.simps b64_step[OF s(1)] b64_step[OF s(2)]
        b64_stop b64_groups.simps v)
next
  case 4
  show ?case by (simp add: b64_decode_def map_filter_simps)
qed

lemma demo_base64_roundtrip: "demo_fromBase64 (demo_toBase64 b) = b"
proof -
  have "\<forall>x \<in> set (map unat b). x < 256"
    using unsigned_less[where 'a=nat and 'b=8] by auto
  then show ?thesis
    by (simp add: demo_fromBase64_def demo_toBase64_def b64_decode_encode comp_def)
qed

lemma demo_pbkdf2_contract: "pbkdf2_contract demo"
  by (simp add: pbkdf2_contract_def demo_def demo_pbkdf2_def)

lemma demo_base64_contract: "base64_contract demo"
  by (simp add: base64_contract_def demo_def demo_base64_roundtrip)

lemma demo_utf8_contract: "utf8_contract demo"
  by (simp add: utf8_contract_def demo_def)

lemma demo_tag_length: "length (demo_tag key nonce ct) = 16"
  by (simp add: demo_tag_def)

lemma demo_gcm_contract: "gcm_contract demo"
  by (auto simp add: gcm_contract_def demo_def demo_cipher_def demo_decipher_def Let_def
      comp_def xor.assoc demo_tag_length)

lemma slice_append: "length t = k \<Longrightarrow> slice_last k (c @ t) = t \<and> slice_front k (c @ t) = c"
  by (simp add: slice_last_def slice_front_def)

lemma chars_of_eq_iff: "(chars_of b = s) = (b = utf8 s)"
  using utf8_chars_of chars_of_utf8 by auto

lemmas demo_eval = demo_def demo_pbkdf2_def demo_mask_def demo_tag_def demo_cipher_def
  demo_decipher_def demo_toBase64_def demo_fromBase64_def b64_decode_def b64_value_def
  b64_char_def chars_of_eq_iff utf8_def map_filter_simps upt_rec Let_def
  deriveKey_def PBKDF2_ITERATIONS_def KEY_LENGTH_def slice_last_def slice_front_def

lemma slice_short: "length b < 16 \<Longrightarrow> slice_last 16 b = b \<and> slice_front 16 b = []"
  by (simp add: slice_last_def slice_front_def)

lemma slice_long:
  "16 \<le> length b \<Longrightarrow> length (slice_last 16 b) = 16 \<and> slice_front 16 b @ slice_last 16 b = b"
  by (simp add: slice_last_def slice_front_def)

lemmas demo_data = demo_hello_def demo_second_def demo_paste_def protected_A_def public_A_def
  nothing_cached_def forbidden_def store_accepts_def store_denies_def store_null_def

lemmas demo_data2 = demo_dialog_def demo_tracker_def demo_editor_def trackDocument_def

lemma stake16: "stake 16 (demo_source) =
    [1, 8, 15, 22, 29, 36, 43, 50, 57, 64, 71, 78, 85, 92, 99, 106]"
  by (simp add: demo_source_def eval_nat_numeral)

lemma stake12: "stake 12 (sdrop 16 (demo_source)) =
    [113, 120, 127, 134, 141, 148, 155, 162, 169, 176, 183, 190]"
  by (simp add: demo_source_def eval_nat_numeral)

lemma char_of_nat_eq: "(char_of (n::nat) = c) = (n mod 256 = of_char c)"
proof
  assume "char_of n = c"
  then have "of_char (char_of n) = (of_char c :: nat)" by simp
  then show "n mod 256 = of_char c" by simp
next
  assume "n mod 256 = of_char c"
  then have "char_of (n mod 256) = char_of (of_char c :: nat)" by simp
  then show "char_of n = c" by simp
qed

lemma demo_seal_hello:
  "encryptContent demo (demo_source) ''hello world'' ''correct-horse'' =
     Inr (\<lparr>encrypted = ''Ym9mZmUqfWV4Zm5kZWZnaGlqa2xtbm9wcXJz'',
           sealed_salt = ''AQgPFh0kKzI5QEdOVVxjag=='',
           sealed_iv = ''cXh/ho2Um6KpsLe+''\<rparr>,
          sdrop 12 (sdrop 16 (demo_source)))"
  by (simp add: encryptContent_def randomBytes_def SALT_LENGTH_def IV_LENGTH_def stake16 stake12
      demo_eval char_of_nat_eq)

lemma unseal_of_sealed:
  assumes "createCipheriv L ''aes-256-gcm'' (deriveKey L p salt') nonce (utf8 x) = Inr (ct, tag)"
      and "length tag = 16"
      and "createDecipheriv L ''aes-256-gcm'' (deriveKey L p salt') nonce tag ct = Inr (utf8 x)"
      and "base64_contract L" and "utf8_contract L" and "valid_utf8 (utf8 x)"
  shows "decryptContent L (toString_base64 L (ct @ tag)) p (toString_base64 L salt')
           (toString_base64 L nonce) = Inr x"
proof -
  have b64: "\<And>b. from_base64 L (toString_base64 L b) = b"
    using assms(4) by (simp add: base64_contract_def)
  have text_back: "toString_utf8 L (utf8 x) = x"
    using assms(5,6) by (simp add: utf8_contract_def chars_of_utf8)
  show ?thesis
    using assms(1,2,3) text_back
    by (simp add: decryptContent_def b64 slice_append)
qed

section \<open>The codec: claims C1 to C4\<close>

text \<open>
  C1 (round trip). On a platform that meets the contracts, for every string \<open>x\<close> that is
  well-formed UTF-8, every passphrase \<open>p\<close> and every state of the random source, sealing
  succeeds, and unsealing the blob it returns with the same passphrase returns \<open>x\<close>.
\<close>

theorem roundtrip:
  assumes "pbkdf2_contract L" "gcm_contract L" "base64_contract L" "utf8_contract L"
      and "valid_utf8 (utf8 x)"
  shows "\<exists>e src'. encryptContent L src x p = Inr (e, src')
           \<and> decryptContent L (encrypted e) p (sealed_salt e) (sealed_iv e) = Inr x"
proof -
  let ?salt = "stake 16 src"
  let ?iv = "stake 12 (sdrop 16 src)"
  let ?key = "deriveKey L p ?salt"
  have klen: "length ?key = 32"
    using assms(1) by (simp add: deriveKey_def pbkdf2_contract_def KEY_LENGTH_def)
  obtain ct tag where enc: "createCipheriv L ''aes-256-gcm'' ?key ?iv (utf8 x) = Inr (ct, tag)"
    and tlen: "length tag = 16"
    and dec: "createDecipheriv L ''aes-256-gcm'' ?key ?iv tag ct = Inr (utf8 x)"
    using assms(2) klen unfolding gcm_contract_def by (metis length_stake)
  have b64: "\<And>b. from_base64 L (toString_base64 L b) = b"
    using assms(3) by (simp add: base64_contract_def)
  have text_back: "toString_utf8 L (utf8 x) = x"
    using assms(4,5) by (simp add: utf8_contract_def chars_of_utf8)
  show ?thesis
    using enc dec tlen text_back
    by (simp add: encryptContent_def decryptContent_def randomBytes_def SALT_LENGTH_def
        IV_LENGTH_def b64 slice_append)
qed

theorem roundtrip_witness:
  "valid_utf8 (utf8 ''hello world'') \<and>
   (\<exists>e src'. encryptContent demo demo_source ''hello world'' ''correct-horse''
        = Inr (e, src')
      \<and> decryptContent demo (encrypted e) ''correct-horse'' (sealed_salt e) (sealed_iv e)
          = Inr ''hello world'')"
  using roundtrip[OF demo_pbkdf2_contract demo_gcm_contract demo_base64_contract
      demo_utf8_contract, of "''hello world''" demo_source "''correct-horse''"]
  by (simp add: utf8_def)

text \<open>
  C2 (key derivation). \<open>deriveKey\<close> is PBKDF2 with SHA-256, 100000 iterations and a
  32-byte output: the iteration count and the length are constants of the call, not
  arguments of \<open>deriveKey\<close>. It reads no random source, so equal passphrase and salt give
  equal keys; the key has 32 bytes when PBKDF2 returns the length it is asked for. Sealing
  and unsealing take no iteration count either: the key each hands to the cipher is
  PBKDF2 of the passphrase and the salt with these constants.
\<close>

theorem deriveKey_pbkdf2:
  "deriveKey L p s = pbkdf2Sync L p s 100000 32 ''sha256''
   \<and> (p = p' \<and> s = s' \<longrightarrow> deriveKey L p s = deriveKey L p' s')
   \<and> (pbkdf2_contract L \<longrightarrow> length (deriveKey L p s) = 32)
   \<and> encryptContent L src x p =
       (case createCipheriv L ''aes-256-gcm''
               (pbkdf2Sync L p (stake 16 src) 100000 32 ''sha256'')
               (stake 12 (sdrop 16 src)) (utf8 x) of
          Inl e \<Rightarrow> Inl e
        | Inr (ct, tag) \<Rightarrow>
            Inr (\<lparr>encrypted = toString_base64 L (ct @ tag),
                  sealed_salt = toString_base64 L (stake 16 src),
                  sealed_iv = toString_base64 L (stake 12 (sdrop 16 src))\<rparr>,
                 sdrop 12 (sdrop 16 src)))
   \<and> decryptContent L blob p saltB ivB =
       (case createDecipheriv L ''aes-256-gcm''
               (pbkdf2Sync L p (from_base64 L saltB) 100000 32 ''sha256'')
               (from_base64 L ivB)
               (slice_last 16 (from_base64 L blob)) (slice_front 16 (from_base64 L blob)) of
          Inl e \<Rightarrow> Inl e
        | Inr decrypted \<Rightarrow> Inr (toString_utf8 L decrypted))"
proof -
  have key: "\<And>q t. deriveKey L q t = pbkdf2Sync L q t 100000 32 ''sha256''"
    by (simp add: deriveKey_def PBKDF2_ITERATIONS_def KEY_LENGTH_def)
  have len: "pbkdf2_contract L \<longrightarrow> length (deriveKey L p s) = 32"
    by (simp add: key pbkdf2_contract_def)
  have seal: "encryptContent L src x p =
       (case createCipheriv L ''aes-256-gcm''
               (pbkdf2Sync L p (stake 16 src) 100000 32 ''sha256'')
               (stake 12 (sdrop 16 src)) (utf8 x) of
          Inl e \<Rightarrow> Inl e
        | Inr (ct, tag) \<Rightarrow>
            Inr (\<lparr>encrypted = toString_base64 L (ct @ tag),
                  sealed_salt = toString_base64 L (stake 16 src),
                  sealed_iv = toString_base64 L (stake 12 (sdrop 16 src))\<rparr>,
                 sdrop 12 (sdrop 16 src)))"
    by (simp add: encryptContent_def randomBytes_def SALT_LENGTH_def IV_LENGTH_def key)
  have unseal: "decryptContent L blob p saltB ivB =
       (case createDecipheriv L ''aes-256-gcm''
               (pbkdf2Sync L p (from_base64 L saltB) 100000 32 ''sha256'')
               (from_base64 L ivB)
               (slice_last 16 (from_base64 L blob)) (slice_front 16 (from_base64 L blob)) of
          Inl e \<Rightarrow> Inl e
        | Inr decrypted \<Rightarrow> Inr (toString_utf8 L decrypted))"
    by (simp add: decryptContent_def Let_def key)
  show ?thesis
    using key len seal unseal by simp
qed

theorem deriveKey_pbkdf2_witness:
  "deriveKey demo ''correct-horse'' (utf8 ''0123456789abcdef'')
     = pbkdf2Sync demo ''correct-horse'' (utf8 ''0123456789abcdef'') 100000 32 ''sha256''
   \<and> length (deriveKey demo ''correct-horse'' (utf8 ''0123456789abcdef'')) = 32"
proof -
  note inst = deriveKey_pbkdf2[where L = demo and p = "''correct-horse''"
      and s = "utf8 ''0123456789abcdef''" and p' = "''correct-horse''"
      and s' = "utf8 ''0123456789abcdef''" and src = demo_source and x = "''hello world''"
      and blob = "''+fT9/f6x5v7j/fXg4eLj5OXm5+jp6uvs7e7v''"
      and saltB = "''ZmVkY2JhOTg3NjU0MzIxMA==''" and ivB = "''bm9uY2UtMDAwMDAx''"]
  have "pbkdf2_contract demo \<longrightarrow>
          length (deriveKey demo ''correct-horse'' (utf8 ''0123456789abcdef'')) = 32"
    using inst by blast
  then have "length (deriveKey demo ''correct-horse'' (utf8 ''0123456789abcdef'')) = 32"
    using demo_pbkdf2_contract by simp
  moreover have "deriveKey demo ''correct-horse'' (utf8 ''0123456789abcdef'')
     = pbkdf2Sync demo ''correct-horse'' (utf8 ''0123456789abcdef'') 100000 32 ''sha256''"
    using inst by blast
  ultimately show ?thesis by simp
qed

text \<open>
  C3 (what sealing returns). Sealing reads the next 16 bytes of the random source as
  the salt and the 12 bytes after them as the nonce; its three fields are the base64 of
  the salt, of the nonce, and of the AES-256-GCM cipher bytes followed by the 16-byte
  tag. So the fields decode to 16 bytes, to 12 bytes, and to as many bytes as the
  plaintext has in UTF-8 plus 16.
\<close>

theorem seal_structure:
  assumes "pbkdf2_contract L" "gcm_contract L" "base64_contract L"
  shows "\<exists>e ct tag.
           encryptContent L src x p = Inr (e, sdrop 12 (sdrop 16 src))
         \<and> sealed_salt e = toString_base64 L (stake 16 src)
         \<and> sealed_iv e = toString_base64 L (stake 12 (sdrop 16 src))
         \<and> createCipheriv L ''aes-256-gcm'' (deriveKey L p (stake 16 src))
              (stake 12 (sdrop 16 src)) (utf8 x) = Inr (ct, tag)
         \<and> length tag = 16
         \<and> encrypted e = toString_base64 L (ct @ tag)
         \<and> from_base64 L (encrypted e) = ct @ tag
         \<and> length (from_base64 L (sealed_salt e)) = 16
         \<and> length (from_base64 L (sealed_iv e)) = 12
         \<and> length (from_base64 L (encrypted e)) = length (utf8 x) + 16"
proof -
  let ?salt = "stake 16 src"
  let ?iv = "stake 12 (sdrop 16 src)"
  let ?key = "deriveKey L p ?salt"
  have klen: "length ?key = 32"
    using assms(1) by (simp add: deriveKey_def pbkdf2_contract_def KEY_LENGTH_def)
  obtain ct tag where enc: "createCipheriv L ''aes-256-gcm'' ?key ?iv (utf8 x) = Inr (ct, tag)"
    and clen: "length ct = length (utf8 x)" and tlen: "length tag = 16"
    using assms(2) klen unfolding gcm_contract_def by (metis length_stake)
  have b64: "\<And>b. from_base64 L (toString_base64 L b) = b"
    using assms(3) by (simp add: base64_contract_def)
  show ?thesis
    using enc clen tlen
    by (simp add: encryptContent_def randomBytes_def SALT_LENGTH_def IV_LENGTH_def b64)
qed

theorem seal_structure_witness:
  "\<exists>e ct tag.
           encryptContent demo demo_source ''hello world'' ''correct-horse''
             = Inr (e, sdrop 12 (sdrop 16 demo_source))
         \<and> sealed_salt e = toString_base64 demo (stake 16 demo_source)
         \<and> sealed_iv e = toString_base64 demo (stake 12 (sdrop 16 demo_source))
         \<and> createCipheriv demo ''aes-256-gcm''
              (deriveKey demo ''correct-horse'' (stake 16 demo_source))
              (stake 12 (sdrop 16 demo_source)) (utf8 ''hello world'') = Inr (ct, tag)
         \<and> length tag = 16
         \<and> encrypted e = toString_base64 demo (ct @ tag)
         \<and> from_base64 demo (encrypted e) = ct @ tag
         \<and> length (from_base64 demo (sealed_salt e)) = 16
         \<and> length (from_base64 demo (sealed_iv e)) = 12
         \<and> length (from_base64 demo (encrypted e)) = length (utf8 ''hello world'') + 16"
  by (rule seal_structure[OF demo_pbkdf2_contract demo_gcm_contract demo_base64_contract])

text \<open>
  C4 (when unsealing fails), as the claim states it, does not hold: the code checks
  no decoded length. On a platform that meets every contract, a blob sealed under an
  8-byte salt is unsealed to its plaintext.
\<close>

theorem unseal_short_salt_counterexample:
  "pbkdf2_contract demo \<and> gcm_contract demo \<and> base64_contract demo \<and> utf8_contract demo
   \<and> length (from_base64 demo ''c2FsdHNhbHQ='') = 8
   \<and> decryptContent demo ''s6WjsqW0xsfIycrLzM3Oz9DR0tPU1Q=='' ''correct-horse''
        ''c2FsdHNhbHQ='' ''MDEyMzQ1Njc4OWFi'' = Inr ''secret''"
proof -
  have "length (from_base64 demo ''c2FsdHNhbHQ='') = 8"
    by (simp add: demo_eval)
  moreover have "decryptContent demo ''s6WjsqW0xsfIycrLzM3Oz9DR0tPU1Q=='' ''correct-horse''
        ''c2FsdHNhbHQ='' ''MDEyMzQ1Njc4OWFi'' = Inr ''secret''"
    by (simp add: decryptContent_def demo_eval)
  ultimately show ?thesis
    using demo_pbkdf2_contract demo_gcm_contract demo_base64_contract demo_utf8_contract
    by simp
qed

text \<open>
  C4, amended. Unsealing fails exactly when the decipher run throws, with the error it
  throws, and then returns no plaintext; the decipher is handed the key derived from the
  decoded salt whatever its length, the decoded nonce whatever its length, the last 16
  bytes of the decoded cipher text as the tag (all of it when it is shorter, with no
  cipher bytes left) and what stands before them as the cipher bytes. So what is sealed
  under a salt of any length, with this key derivation and cipher, is unsealed to its
  plaintext.
\<close>

theorem unseal_fails_as_decipher:
  "(createDecipheriv L ''aes-256-gcm'' (deriveKey L p (from_base64 L s)) (from_base64 L i)
       (slice_last 16 (from_base64 L e)) (slice_front 16 (from_base64 L e)) = Inl err
     \<longrightarrow> decryptContent L e p s i = Inl err)
   \<and> (isl (decryptContent L e p s i) =
        isl (createDecipheriv L ''aes-256-gcm'' (deriveKey L p (from_base64 L s))
               (from_base64 L i) (slice_last 16 (from_base64 L e))
               (slice_front 16 (from_base64 L e))))
   \<and> (length (from_base64 L e) < 16 \<longrightarrow>
        slice_last 16 (from_base64 L e) = from_base64 L e
        \<and> slice_front 16 (from_base64 L e) = [])
   \<and> (16 \<le> length (from_base64 L e) \<longrightarrow>
        length (slice_last 16 (from_base64 L e)) = 16
        \<and> slice_front 16 (from_base64 L e) @ slice_last 16 (from_base64 L e) = from_base64 L e)
   \<and> (pbkdf2_contract L \<and> gcm_contract L \<and> base64_contract L \<and> utf8_contract L
        \<and> valid_utf8 (utf8 x) \<and> length nonce = 12 \<longrightarrow>
        (\<exists>ct tag. createCipheriv L ''aes-256-gcm'' (deriveKey L p salt') nonce (utf8 x)
                     = Inr (ct, tag)
           \<and> decryptContent L (toString_base64 L (ct @ tag)) p (toString_base64 L salt')
                (toString_base64 L nonce) = Inr x))"
proof -
  have fails: "createDecipheriv L ''aes-256-gcm'' (deriveKey L p (from_base64 L s))
       (from_base64 L i) (slice_last 16 (from_base64 L e)) (slice_front 16 (from_base64 L e))
       = Inl err \<longrightarrow> decryptContent L e p s i = Inl err"
    by (simp add: decryptContent_def Let_def)
  have only: "isl (decryptContent L e p s i) =
        isl (createDecipheriv L ''aes-256-gcm'' (deriveKey L p (from_base64 L s))
               (from_base64 L i) (slice_last 16 (from_base64 L e))
               (slice_front 16 (from_base64 L e)))"
    by (simp add: decryptContent_def Let_def split: sum.splits)
  have any_salt: "pbkdf2_contract L \<and> gcm_contract L \<and> base64_contract L \<and> utf8_contract L
        \<and> valid_utf8 (utf8 x) \<and> length nonce = 12 \<longrightarrow>
        (\<exists>ct tag. createCipheriv L ''aes-256-gcm'' (deriveKey L p salt') nonce (utf8 x)
                     = Inr (ct, tag)
           \<and> decryptContent L (toString_base64 L (ct @ tag)) p (toString_base64 L salt')
                (toString_base64 L nonce) = Inr x)"
  proof (intro impI, elim conjE)
    assume c: "pbkdf2_contract L" "gcm_contract L" "base64_contract L" "utf8_contract L"
      and x: "valid_utf8 (utf8 x)" and n: "length nonce = 12"
    have klen: "length (deriveKey L p salt') = 32"
      using c(1) by (simp add: deriveKey_def pbkdf2_contract_def KEY_LENGTH_def)
    obtain ct tag where
      enc: "createCipheriv L ''aes-256-gcm'' (deriveKey L p salt') nonce (utf8 x) = Inr (ct, tag)"
      and tlen: "length tag = 16"
      and dec: "createDecipheriv L ''aes-256-gcm'' (deriveKey L p salt') nonce tag ct
                  = Inr (utf8 x)"
      using c(2) klen n unfolding gcm_contract_def by metis
    show "\<exists>ct tag. createCipheriv L ''aes-256-gcm'' (deriveKey L p salt') nonce (utf8 x)
                     = Inr (ct, tag)
           \<and> decryptContent L (toString_base64 L (ct @ tag)) p (toString_base64 L salt')
                (toString_base64 L nonce) = Inr x"
      using enc unseal_of_sealed[OF enc tlen dec c(3,4) x] by blast
  qed
  show ?thesis
    using fails only any_salt slice_short[of "from_base64 L e"] slice_long[of "from_base64 L e"]
    by blast
qed

theorem unseal_fails_as_decipher_witness:
  "decryptContent demo ''s6WjsqW0xsfIycrLzM3Oz9DR0tPU1Q=='' ''wrong-pass''
        ''c2FsdHNhbHQ='' ''MDEyMzQ1Njc4OWFi''
     = Inl (JsError None ''Unsupported state or unable to authenticate data'')
   \<and> length (slice_last 16 (from_base64 demo ''s6WjsqW0xsfIycrLzM3Oz9DR0tPU1Q=='')) = 16"
proof -
  have "createDecipheriv demo ''aes-256-gcm''
          (deriveKey demo ''wrong-pass'' (from_base64 demo ''c2FsdHNhbHQ=''))
          (from_base64 demo ''MDEyMzQ1Njc4OWFi'')
          (slice_last 16 (from_base64 demo ''s6WjsqW0xsfIycrLzM3Oz9DR0tPU1Q==''))
          (slice_front 16 (from_base64 demo ''s6WjsqW0xsfIycrLzM3Oz9DR0tPU1Q==''))
        = Inl (JsError None ''Unsupported state or unable to authenticate data'')"
    by (simp add: demo_eval)
  moreover have "16 \<le> length (from_base64 demo ''s6WjsqW0xsfIycrLzM3Oz9DR0tPU1Q=='')"
    by (simp add: demo_eval)
  ultimately show ?thesis
    using unseal_fails_as_decipher[of demo "''wrong-pass''" "''c2FsdHNhbHQ=''"
        "''MDEyMzQ1Njc4OWFi''" "''s6WjsqW0xsfIycrLzM3Oz9DR0tPU1Q==''"
        "JsError None ''Unsupported state or unable to authenticate data''"]
    by simp
qed

section \<open>The provider: claims C5 to C8\<close>

lemma resolve_session:
  "unlockedPastes st (paste_id el) = Some \<lparr>paste = Some obj, passphrase = pw\<rparr> \<Longrightarrow>
   resolve L w st el tr =
     (if files obj \<noteq> [] then fileItems L (Some pw) el (files obj) else [], st, tr)"
  by (simp add: resolve_def cachedPaste_def render_def)

lemma fileItems_length: "length (fileItems L pass el fs) = length fs"
  by (simp add: fileItems_def)

lemma fileItems_nth:
  "i < length fs \<Longrightarrow>
   fileItems L pass el fs ! i =
     \<lparr>fileName = name (fs ! i), item_content = fileContent L pass (fs ! i),
      item_language = language (fs ! i), item_isMain = isMain (fs ! i),
      pasteId = paste_id el, fileIndex = i, isEncrypted = isPasswordProtected el\<rparr>"
  by (simp add: fileItems_def nth_enumerate_eq)

lemma getChildren_unlocked:
  assumes "unlockedPastes st (paste_id el) = Some \<lparr>paste = Some obj, passphrase = pw\<rparr>
           \<or> (isPasswordProtected el \<and> unlockedPastes st (paste_id el) = None
              \<and> showInputBox w = Some pw \<and> pw \<noteq> []
              \<and> unlockPaste w (paste_id el) pw = Inr (Some obj))"
  shows "fst (getChildren L w st el) =
           (if files obj \<noteq> [] then fileItems L (Some pw) el (files obj) else [])"
  using assms
  by (auto simp add: getChildren_def resolve_session)

lemma unlockedItems_length: "length (unlockedItems L pw el fs) = length fs"
  by (simp add: unlockedItems_def)

lemma unlockedItems_nth:
  "i < length fs \<Longrightarrow>
   unlockedItems L pw el fs ! i =
     \<lparr>fileName = name (fs ! i), item_content = unlockedContent L pw (fs ! i),
      item_language = language (fs ! i), item_isMain = isMain (fs ! i),
      pasteId = paste_id el, fileIndex = i, isEncrypted = True\<rparr>"
  by (simp add: unlockedItems_def nth_enumerate_eq)

lemma unlockedContent_fileContent: "pw \<noteq> [] \<Longrightarrow> unlockedContent L pw f = fileContent L (Some pw) f"
  by (simp add: unlockedContent_def split: option.splits)

lemma getChildren_unlocked_on_403:
  assumes "\<not> isPasswordProtected el" and "unlockedPastes st (paste_id el) = None"
      and "cachedPaste st (paste_id el) = None"
      and "getPaste w (paste_id el) = Inl e" and "is403 e"
      and "showInputBox w = Some pw" and "pw \<noteq> []"
      and "unlockPaste w (paste_id el) pw = Inr (Some obj)"
  shows "fst (getChildren L w st el) =
           (if files obj \<noteq> [] then unlockedItems L pw el (files obj) else [])"
  using assms
  by (simp add: getChildren_def resolve_def onError_def Let_def)

lemma getChildren_prompts_first:
  "isPasswordProtected el \<Longrightarrow> unlockedPastes st (paste_id el) = None \<Longrightarrow>
   \<exists>tr. snd (snd (getChildren L w st el)) = Prompt (title el) # tr"
  by (auto simp add: getChildren_def resolve_def onError_def Let_def
      split: option.splits sum.splits)

lemma cannotReadFiles_not_403: "\<not> is403 cannotReadFiles"
  by (simp add: is403_def cannotReadFiles_def)

lemma forbidden_403: "is403 forbidden"
  by (simp add: is403_def forbidden_def)

lemma denied_unlock_keeps_maps:
  assumes "getChildren L w st el = (items, st', tr)"
      and "UnlockCall i pw \<in> set tr" and "unlockPaste w i pw = Inl e"
  shows "items = [] \<and> st' = st"
  using assms
  by (auto simp add: getChildren_def resolve_def onError_def Let_def cannotReadFiles_not_403
      split: if_splits option.splits sum.splits)


lemma denied_unlock_message:
  assumes "getChildren L w st el = (items, st', tr)"
      and "UnlockCall i pw \<in> set tr" and "unlockPaste w i pw = Inl e"
  shows "ErrorMessage ''Incorrect passphrase'' \<in> set tr"
  using assms
  by (auto simp add: getChildren_def resolve_def onError_def Let_def
      split: if_splits option.splits sum.splits)

lemma unlock_only_without_session:
  assumes "getChildren L w st el = (items, st', tr)" and "UnlockCall i pw \<in> set tr"
  shows "unlockedPastes st (paste_id el) = None"
  using assms
  by (auto simp add: getChildren_def resolve_def onError_def Let_def
      split: if_splits option.splits sum.splits)

lemma session_kept:
  assumes "unlockedPastes st (paste_id el) = Some u"
  shows "unlockedPastes (fst (snd (getChildren L w st el))) (paste_id el) = Some u"
  using assms
  by (auto simp add: getChildren_def resolve_def onError_def Let_def
      split: option.splits sum.splits)

lemma session_no_prompt:
  assumes "unlockedPastes st (paste_id el) = Some u"
  shows "set (snd (snd (getChildren L w st el))) \<subseteq> {GetCall (paste_id el)}"
  using assms
  by (auto simp add: getChildren_def resolve_def onError_def Let_def
      split: option.splits sum.splits)

text \<open>
  C5 (one file's failure stays with that file). When the paste is unlocked (a session with
  its payload exists, or this call unlocks it, at line 153 or in the handler at line
  208), one call returns an item for every file of the payload, in the payload's order;
  a sealed file whose unsealing fails gets the marker \<^verbatim>\<open>[Decryption failed]\<close> as its
  body, a sealed file whose unsealing succeeds gets the unsealed text, a file without
  salt or iv keeps its body, whatever happens to the other files.
\<close>

theorem per_file_isolation:
  assumes "unlockedPastes st (paste_id el) = Some \<lparr>paste = Some obj, passphrase = pw\<rparr>
           \<or> (isPasswordProtected el \<and> unlockedPastes st (paste_id el) = None
              \<and> showInputBox w = Some pw
              \<and> unlockPaste w (paste_id el) pw = Inr (Some obj))
           \<or> (\<not> isPasswordProtected el \<and> unlockedPastes st (paste_id el) = None
              \<and> cachedPaste st (paste_id el) = None
              \<and> (\<exists>e. getPaste w (paste_id el) = Inl e \<and> is403 e)
              \<and> showInputBox w = Some pw
              \<and> unlockPaste w (paste_id el) pw = Inr (Some obj))"
      and "pw \<noteq> []" and "i < length (files obj)"
  shows "length (fst (getChildren L w st el)) = length (files obj)
       \<and> fileIndex (fst (getChildren L w st el) ! i) = i
       \<and> fileName (fst (getChildren L w st el) ! i) = name (files obj ! i)
       \<and> (\<forall>s v. salt (files obj ! i) = Some s \<and> iv (files obj ! i) = Some v
                 \<and> s \<noteq> [] \<and> v \<noteq> [] \<longrightarrow>
             (\<forall>e. decryptContent L (content (files obj ! i)) pw s v = Inl e \<longrightarrow>
                  item_content (fst (getChildren L w st el) ! i) = ''[Decryption failed]'')
           \<and> (\<forall>c. decryptContent L (content (files obj ! i)) pw s v = Inr c \<longrightarrow>
                  item_content (fst (getChildren L w st el) ! i) = c))
       \<and> (\<not> truthy (salt (files obj ! i)) \<or> \<not> truthy (iv (files obj ! i)) \<longrightarrow>
             item_content (fst (getChildren L w st el) ! i) = content (files obj ! i))"
proof -
  have ne: "files obj \<noteq> []" using assms(3) by auto
  have len: "length (fst (getChildren L w st el)) = length (files obj)"
    and item: "fileIndex (fst (getChildren L w st el) ! i) = i
             \<and> fileName (fst (getChildren L w st el) ! i) = name (files obj ! i)
             \<and> item_content (fst (getChildren L w st el) ! i)
                 = fileContent L (Some pw) (files obj ! i)"
  proof -
    consider
      (session) "unlockedPastes st (paste_id el) = Some \<lparr>paste = Some obj, passphrase = pw\<rparr>
           \<or> (isPasswordProtected el \<and> unlockedPastes st (paste_id el) = None
              \<and> showInputBox w = Some pw
              \<and> unlockPaste w (paste_id el) pw = Inr (Some obj))"
      | (handler) e where "\<not> isPasswordProtected el" "unlockedPastes st (paste_id el) = None"
          "cachedPaste st (paste_id el) = None" "getPaste w (paste_id el) = Inl e" "is403 e"
          "showInputBox w = Some pw" "unlockPaste w (paste_id el) pw = Inr (Some obj)"
      using assms(1) by blast
    then have "length (fst (getChildren L w st el)) = length (files obj)
             \<and> fileIndex (fst (getChildren L w st el) ! i) = i
             \<and> fileName (fst (getChildren L w st el) ! i) = name (files obj ! i)
             \<and> item_content (fst (getChildren L w st el) ! i)
                 = fileContent L (Some pw) (files obj ! i)"
    proof cases
      case session
      have "fst (getChildren L w st el) = fileItems L (Some pw) el (files obj)"
        using getChildren_unlocked[of st el obj pw w L] session assms(2) ne by auto
      then show ?thesis
        using assms(3) by (simp add: fileItems_length fileItems_nth)
    next
      case handler
      have "fst (getChildren L w st el) = unlockedItems L pw el (files obj)"
        using getChildren_unlocked_on_403[OF handler(1-6) assms(2) handler(7), of L] ne by simp
      then show ?thesis
        using assms(2,3)
        by (simp add: unlockedItems_length unlockedItems_nth unlockedContent_fileContent)
    qed
    then show "length (fst (getChildren L w st el)) = length (files obj)"
      and "fileIndex (fst (getChildren L w st el) ! i) = i
             \<and> fileName (fst (getChildren L w st el) ! i) = name (files obj ! i)
             \<and> item_content (fst (getChildren L w st el) ! i)
                 = fileContent L (Some pw) (files obj ! i)"
      by simp_all
  qed
  show ?thesis
    using assms(2) len item
    by (auto simp add: truthy_def split: option.splits)
qed

theorem per_file_isolation_witness:
  "map item_content (fst (getChildren demo store_accepts nothing_cached protected_A))
     = [''hello world'', ''[Decryption failed]'']"
proof -
  have a: "isPasswordProtected protected_A \<and> unlockedPastes nothing_cached (paste_id protected_A) = None
        \<and> showInputBox store_accepts = Some ''correct-horse''
        \<and> unlockPaste store_accepts (paste_id protected_A) ''correct-horse'' = Inr (Some demo_paste)"
    by (simp add: demo_data)
  have d0: "decryptContent demo (content (files demo_paste ! 0)) ''correct-horse''
              ''ZmVkY2JhOTg3NjU0MzIxMA=='' ''bm9uY2UtMDAwMDAx'' = Inr ''hello world''"
    by (simp add: demo_data decryptContent_def demo_eval)
  have d1: "decryptContent demo (content (files demo_paste ! 1)) ''correct-horse''
              ''ZmVkY2JhOTg3NjU0MzIxMA=='' ''bm9uY2UtMDAwMDAy''
            = Inl (JsError None ''Unsupported state or unable to authenticate data'')"
    by (simp add: demo_data decryptContent_def demo_eval)
  have s0: "salt (files demo_paste ! 0) = Some ''ZmVkY2JhOTg3NjU0MzIxMA==''
          \<and> iv (files demo_paste ! 0) = Some ''bm9uY2UtMDAwMDAx''"
    by (simp add: demo_data)
  have s1: "salt (files demo_paste ! 1) = Some ''ZmVkY2JhOTg3NjU0MzIxMA==''
          \<and> iv (files demo_paste ! 1) = Some ''bm9uY2UtMDAwMDAy''"
    by (simp add: demo_data)
  have l: "length (files demo_paste) = 2" by (simp add: demo_data)
  note p0 = per_file_isolation[of nothing_cached protected_A demo_paste "''correct-horse''"
      store_accepts 0 demo, OF disjI2[OF disjI1[OF a]]]
  note p1 = per_file_isolation[of nothing_cached protected_A demo_paste "''correct-horse''"
      store_accepts 1 demo, OF disjI2[OF disjI1[OF a]]]
  have c0: "item_content (fst (getChildren demo store_accepts nothing_cached protected_A) ! 0)
              = ''hello world''"
    using p0 d0 s0 l by simp
  have c1: "item_content (fst (getChildren demo store_accepts nothing_cached protected_A) ! 1)
              = ''[Decryption failed]''"
    using p1 d1 s1 l by simp
  have len: "length (fst (getChildren demo store_accepts nothing_cached protected_A)) = 2"
    using p0 l by simp
  show ?thesis
    using c0 c1 len by (simp add: list_eq_iff_nth_eq less_Suc_eq numeral_2_eq_2)
qed

text \<open>
  C6 (a failed unlock leaves no trace). When the unlock request of a call is answered with
  an error, the call returns no items, shows \<^verbatim>\<open>Incorrect passphrase\<close> and leaves both
  maps as they were; there is still no session for the paste, so the next call for a
  protected paste starts with the passphrase prompt, whatever the collaborators then do.
\<close>

theorem failed_unlock_no_trace:
  assumes "getChildren L w st el = (items, st', tr)"
      and "UnlockCall i pw \<in> set tr" and "unlockPaste w i pw = Inl e"
  shows "items = [] \<and> st' = st
       \<and> ErrorMessage ''Incorrect passphrase'' \<in> set tr
       \<and> unlockedPastes st' (paste_id el) = None
       \<and> (isPasswordProtected el \<longrightarrow>
            (\<forall>w'. \<exists>tr'. snd (snd (getChildren L w' st' el)) = Prompt (title el) # tr'))"
proof -
  have same: "items = [] \<and> st' = st"
    using denied_unlock_keeps_maps[OF assms] .
  have msg: "ErrorMessage ''Incorrect passphrase'' \<in> set tr"
    using denied_unlock_message[OF assms] .
  have none: "unlockedPastes st (paste_id el) = None"
    using unlock_only_without_session[OF assms(1,2)] .
  show ?thesis
    using same msg none getChildren_prompts_first[of el st L] by simp
qed

theorem failed_unlock_no_trace_witness:
  "getChildren demo store_denies nothing_cached protected_A =
     ([], nothing_cached, [Prompt ''notes'', UnlockCall ''A'' ''wrong-pass'',
                           ErrorMessage ''Incorrect passphrase''])
   \<and> unlockedPastes nothing_cached ''A'' = None
   \<and> snd (snd (getChildren demo store_accepts nothing_cached protected_A))
       = [Prompt ''notes'', UnlockCall ''A'' ''correct-horse'']"
proof -
  have run: "getChildren demo store_denies nothing_cached protected_A =
     ([], nothing_cached, [Prompt ''notes'', UnlockCall ''A'' ''wrong-pass'',
                           ErrorMessage ''Incorrect passphrase''])"
    by (simp add: getChildren_def demo_data)
  have denied: "unlockPaste store_denies ''A'' ''wrong-pass'' = Inl forbidden"
    by (simp add: demo_data)
  have second: "snd (snd (getChildren demo store_accepts nothing_cached protected_A))
       = [Prompt ''notes'', UnlockCall ''A'' ''correct-horse'']"
    by (simp add: getChildren_def resolve_def cachedPaste_def demo_data)
  have "unlockedPastes nothing_cached (paste_id protected_A) = None"
    using failed_unlock_no_trace[OF run _ denied] by simp
  then show ?thesis
    using run second by (simp add: protected_A_def)
qed

text \<open>
  C7 (cache reuse), as the claim states it, does not hold. After a call for paste
  \<^verbatim>\<open>A\<close> as a public paste has cached its payload, a call for \<^verbatim>\<open>A\<close> as a protected
  paste prompts and sends an unlock request: the test of line 139 comes before any look
  at the cache. And after an unlock that the store answers with a \<^verbatim>\<open>null\<close> body, a
  session exists and the next call fetches the paste from the store.
\<close>

theorem cache_hit_protected_counterexample:
  "pasteCache (fst (snd (getChildren demo store_accepts nothing_cached public_A))) ''A''
     = Some (Some demo_paste)
   \<and> snd (snd (getChildren demo store_accepts nothing_cached public_A)) = [GetCall ''A'']
   \<and> snd (snd (getChildren demo store_accepts
                 (fst (snd (getChildren demo store_accepts nothing_cached public_A)))
                 protected_A))
       = [Prompt ''notes'', UnlockCall ''A'' ''correct-horse'']
   \<and> unlockPaste store_null ''A'' ''correct-horse'' = Inr None
   \<and> unlockedPastes (fst (snd (getChildren demo store_null nothing_cached protected_A))) ''A''
       = Some \<lparr>paste = None, passphrase = ''correct-horse''\<rparr>
   \<and> snd (snd (getChildren demo store_null
                 (fst (snd (getChildren demo store_null nothing_cached protected_A)))
                 protected_A))
       = [GetCall ''A'']"
  by (simp add: getChildren_def resolve_def cachedPaste_def onError_def Let_def demo_data
      is403_def)

text \<open>
  C7, amended. When the session's payload or, without one, the cached payload is an
  object, and the element is not protected or a session exists, a call returns the
  items of that payload, changes neither map and contacts neither the store nor the
  user. In particular, after a call that has unlocked a protected paste with a payload
  that is an object, the next call returns the same items and contacts nobody,
  whatever the collaborators would answer.
\<close>

theorem cache_reuse:
  "(cachedPaste st (paste_id el) = Some obj
      \<and> (\<not> isPasswordProtected el \<or> unlockedPastes st (paste_id el) \<noteq> None)
     \<longrightarrow> getChildren L w st el = (render L st el obj, st, []))
   \<and> (isPasswordProtected el \<and> unlockedPastes st (paste_id el) = None
        \<and> showInputBox w = Some pw \<and> pw \<noteq> []
        \<and> unlockPaste w (paste_id el) pw = Inr (Some obj)
     \<longrightarrow> (\<forall>w'. getChildren L w' (fst (snd (getChildren L w st el))) el
                = (fst (getChildren L w st el), fst (snd (getChildren L w st el)), [])))"
proof -
  have hit: "cachedPaste st (paste_id el) = Some obj
      \<and> (\<not> isPasswordProtected el \<or> unlockedPastes st (paste_id el) \<noteq> None)
     \<longrightarrow> getChildren L w st el = (render L st el obj, st, [])"
    by (auto simp add: getChildren_def resolve_def)
  have again: "isPasswordProtected el \<and> unlockedPastes st (paste_id el) = None
        \<and> showInputBox w = Some pw \<and> pw \<noteq> []
        \<and> unlockPaste w (paste_id el) pw = Inr (Some obj)
     \<longrightarrow> (\<forall>w'. getChildren L w' (fst (snd (getChildren L w st el))) el
                = (fst (getChildren L w st el), fst (snd (getChildren L w st el)), []))"
  proof (intro impI allI, elim conjE)
    fix w'
    assume a: "isPasswordProtected el" "unlockedPastes st (paste_id el) = None"
      "showInputBox w = Some pw" "pw \<noteq> []" "unlockPaste w (paste_id el) pw = Inr (Some obj)"
    let ?st1 = "st\<lparr>unlockedPastes := (unlockedPastes st)
                   (paste_id el \<mapsto> \<lparr>paste = Some obj, passphrase = pw\<rparr>)\<rparr>"
    have session: "unlockedPastes ?st1 (paste_id el) = Some \<lparr>paste = Some obj, passphrase = pw\<rparr>"
      by simp
    have first: "getChildren L w st el =
        (if files obj \<noteq> [] then fileItems L (Some pw) el (files obj) else [], ?st1,
         [Prompt (title el), UnlockCall (paste_id el) pw])"
      using a by (simp add: getChildren_def resolve_session[OF session])
    have second: "getChildren L w' ?st1 el =
        (if files obj \<noteq> [] then fileItems L (Some pw) el (files obj) else [], ?st1, [])"
      by (simp add: getChildren_def resolve_session[OF session])
    show "getChildren L w' (fst (snd (getChildren L w st el))) el
                = (fst (getChildren L w st el), fst (snd (getChildren L w st el)), [])"
      by (simp add: first second)
  qed
  show ?thesis
    using hit again by blast
qed

theorem cache_reuse_witness:
  "getChildren demo store_denies
      (fst (snd (getChildren demo store_accepts nothing_cached protected_A))) protected_A
   = (fst (getChildren demo store_accepts nothing_cached protected_A),
      fst (snd (getChildren demo store_accepts nothing_cached protected_A)), [])
   \<and> getChildren demo store_denies
      (fst (snd (getChildren demo store_accepts nothing_cached public_A))) public_A
   = (render demo (fst (snd (getChildren demo store_accepts nothing_cached public_A)))
        public_A demo_paste,
      fst (snd (getChildren demo store_accepts nothing_cached public_A)), [])"
proof -
  have a: "isPasswordProtected protected_A \<and> unlockedPastes nothing_cached (paste_id protected_A) = None
        \<and> showInputBox store_accepts = Some ''correct-horse'' \<and> ''correct-horse'' \<noteq> []
        \<and> unlockPaste store_accepts (paste_id protected_A) ''correct-horse'' = Inr (Some demo_paste)"
    by (simp add: demo_data)
  have b: "cachedPaste (fst (snd (getChildren demo store_accepts nothing_cached public_A)))
             (paste_id public_A) = Some demo_paste
           \<and> (\<not> isPasswordProtected public_A
               \<or> unlockedPastes (fst (snd (getChildren demo store_accepts nothing_cached public_A)))
                    (paste_id public_A) \<noteq> None)"
    by (simp add: getChildren_def resolve_def cachedPaste_def Let_def demo_data)
  show ?thesis
    using cache_reuse[of "fst (snd (getChildren demo store_accepts nothing_cached public_A))"
        public_A demo_paste demo store_denies] b
      cache_reuse[of nothing_cached protected_A demo_paste demo store_accepts "''correct-horse''"] a
    by blast
qed

text \<open>
  C8 (invalidate on access denied), as the claim states it, does not hold. On a store
  that accepts the unlock with a \<^verbatim>\<open>null\<close> body and answers the fetch with status 403,
  the first call creates a session and the second call, made while it exists, gets the
  403: the session is still there afterwards.
\<close>

theorem stale_session_kept_counterexample:
  "snd (snd (getChildren demo store_null nothing_cached protected_A))
     = [Prompt ''notes'', UnlockCall ''A'' ''correct-horse'', GetCall ''A'']
   \<and> unlockedPastes (fst (snd (getChildren demo store_null nothing_cached protected_A))) ''A''
     = Some \<lparr>paste = None, passphrase = ''correct-horse''\<rparr>
   \<and> getPaste store_null ''A'' = Inl (JsError (Some 403) ''Request failed with status code 403'')
   \<and> getChildren demo store_null
        (fst (snd (getChildren demo store_null nothing_cached protected_A))) protected_A
     = ([], fst (snd (getChildren demo store_null nothing_cached protected_A)), [GetCall ''A''])"
  by (simp add: getChildren_def resolve_def cachedPaste_def onError_def Let_def demo_data is403_def)

text \<open>
  C8, amended. While a session exists for a paste, a call never prompts and never sends
  an unlock request (the stored passphrase is not sent again); the session is the same
  after the call. When the fetch such a call makes is answered with an error, the call
  returns no items and changes nothing; so does a failed fetch of the save command.
  Only \<open>refresh\<close> drops the session.
\<close>

theorem stale_session_kept:
  assumes "unlockedPastes st (paste_id el) = Some u"
  shows "unlockedPastes (fst (snd (getChildren L w st el))) (paste_id el) = Some u
       \<and> (\<forall>t. Prompt t \<notin> set (snd (snd (getChildren L w st el))))
       \<and> (\<forall>i p. UnlockCall i p \<notin> set (snd (snd (getChildren L w st el))))
       \<and> (cachedPaste st (paste_id el) = None \<and> getPaste w (paste_id el) = Inl e \<longrightarrow>
             getChildren L w st el = ([], st, [GetCall (paste_id el)]))
       \<and> (getDocumentMetadata (doc_uri ed) documentMetadataMap = Some md
            \<and> getPaste w (md_pasteId md) = Inl e \<longrightarrow>
             fst (saveToPastezen w documentMetadataMap st (Some ed)) = st)
       \<and> unlockedPastes (refresh (fst (snd (getChildren L w st el)))) (paste_id el) = None"
proof -
  have kept: "unlockedPastes (fst (snd (getChildren L w st el))) (paste_id el) = Some u"
    using session_kept[OF assms] .
  have quiet: "set (snd (snd (getChildren L w st el))) \<subseteq> {GetCall (paste_id el)}"
    using session_no_prompt[OF assms] .
  have denied: "cachedPaste st (paste_id el) = None \<and> getPaste w (paste_id el) = Inl e \<longrightarrow>
             getChildren L w st el = ([], st, [GetCall (paste_id el)])"
    using assms by (simp add: getChildren_def resolve_def onError_def)
  have save: "getDocumentMetadata (doc_uri ed) documentMetadataMap = Some md
            \<and> getPaste w (md_pasteId md) = Inl e \<longrightarrow>
             fst (saveToPastezen w documentMetadataMap st (Some ed)) = st"
    by (simp add: saveToPastezen_def)
  show ?thesis
    using kept quiet denied save by (auto simp add: refresh_def)
qed

theorem stale_session_kept_witness:
  "unlockedPastes (fst (snd (getChildren demo store_null
       (fst (snd (getChildren demo store_null nothing_cached protected_A))) protected_A))) ''A''
     = Some \<lparr>paste = None, passphrase = ''correct-horse''\<rparr>
   \<and> getChildren demo store_null
        (fst (snd (getChildren demo store_null nothing_cached protected_A))) protected_A
     = ([], fst (snd (getChildren demo store_null nothing_cached protected_A)), [GetCall ''A''])"
proof -
  have s: "unlockedPastes (fst (snd (getChildren demo store_null nothing_cached protected_A)))
             (paste_id protected_A) = Some \<lparr>paste = None, passphrase = ''correct-horse''\<rparr>"
    by (simp add: getChildren_def resolve_def cachedPaste_def onError_def Let_def demo_data is403_def)
  have c: "cachedPaste (fst (snd (getChildren demo store_null nothing_cached protected_A)))
             (paste_id protected_A) = None \<and> getPaste store_null (paste_id protected_A) = Inl forbidden"
    by (simp add: getChildren_def resolve_def cachedPaste_def onError_def Let_def demo_data is403_def)
  show ?thesis
    using stale_session_kept[OF s, of demo store_null forbidden] c s
    by (simp add: protected_A_def)
qed

section \<open>The extension: claims C9 and C10\<close>

text \<open>
  C9 (the algorithm picked is cosmetic). Two runs of \<^verbatim>\<open>createPaste\<close> that differ only in
  the algorithm picked end the same way, and the request bodies they post differ at most
  in \<open>p_encryptionLevel\<close>. For a private paste the posted file is what \<open>encryptContent\<close>
  returns for the content and the passphrase: its body is the base64 of the cipher bytes
  and tag of the \<^verbatim>\<open>aes-256-gcm\<close> run under the PBKDF2 key, and the algorithm picked is
  the request's \<open>p_encryptionLevel\<close> and nothing else.
\<close>

theorem algorithm_is_cosmetic:
  "(case (createPaste L src (dlg\<lparr>pick_algorithm := Some alg\<rparr>) fileName' content' language',
          createPaste L src (dlg\<lparr>pick_algorithm := Some alg'\<rparr>) fileName' content' language') of
      (Posted p, Posted p') \<Rightarrow> p = p'\<lparr>p_encryptionLevel := p_encryptionLevel p\<rparr>
    | (Failed e, Failed e') \<Rightarrow> e = e'
    | (Cancelled, Cancelled) \<Rightarrow> True
    | _ \<Rightarrow> False)
   \<and> (ask_title dlg = Some t \<and> t \<noteq> [] \<and> pick_visibility dlg = Some Private
        \<and> ask_passphrase dlg = Some pw \<and> pw \<noteq> [] \<and> ask_confirm dlg = Some c \<and> c \<noteq> []
      \<longrightarrow> createPaste L src (dlg\<lparr>pick_algorithm := Some alg\<rparr>) fileName' content' language' =
          (case encryptContent L src content' pw of
             Inl e \<Rightarrow> Failed e
           | Inr (enc, src') \<Rightarrow>
               Posted \<lparr>p_title = t,
                       p_files = [\<lparr>name = fileName', content = encrypted enc,
                                   language = language', isMain = True,
                                   salt = (if sealed_salt enc \<noteq> [] \<and> sealed_iv enc \<noteq> []
                                           then Some (sealed_salt enc) else None),
                                   iv = (if sealed_salt enc \<noteq> [] \<and> sealed_iv enc \<noteq> []
                                         then Some (sealed_iv enc) else None)\<rparr>],
                       p_visibility = Private, p_isPasswordProtected = True,
                       p_encryptionLevel = Some alg, p_password = Some pw\<rparr>)
        \<and> (\<forall>ct tag. createCipheriv L ''aes-256-gcm''
                         (pbkdf2Sync L pw (stake 16 src) 100000 32 ''sha256'')
                         (stake 12 (sdrop 16 src)) (utf8 content') = Inr (ct, tag)
              \<longrightarrow> (\<exists>p. createPaste L src (dlg\<lparr>pick_algorithm := Some alg\<rparr>)
                            fileName' content' language' = Posted p
                       \<and> map content (p_files p) = [toString_base64 L (ct @ tag)]
                       \<and> p_encryptionLevel p = Some alg)))"
  by (auto simp add: createPaste_def api_createPaste_def truthy_def Let_def encryptContent_def
      randomBytes_def deriveKey_def SALT_LENGTH_def IV_LENGTH_def PBKDF2_ITERATIONS_def
      KEY_LENGTH_def
      split: option.splits sum.splits prod.splits create_outcome.splits)

theorem algorithm_is_cosmetic_witness:
  "createPaste demo (demo_source) (demo_dialog Rc4)
       ''hello.txt'' ''hello world'' ''plaintext'' =
     Posted \<lparr>p_title = ''notes'',
             p_files = [\<lparr>name = ''hello.txt'',
                         content = ''Ym9mZmUqfWV4Zm5kZWZnaGlqa2xtbm9wcXJz'',
                         language = ''plaintext'', isMain = True,
                         salt = Some ''AQgPFh0kKzI5QEdOVVxjag=='',
                         iv = Some ''cXh/ho2Um6KpsLe+''\<rparr>],
             p_visibility = Private, p_isPasswordProtected = True,
             p_encryptionLevel = Some Rc4, p_password = Some ''correct-horse''\<rparr>"
proof -
  have d: "ask_title (demo_dialog Aes) = Some ''notes'' \<and> ''notes'' \<noteq> []
        \<and> pick_visibility (demo_dialog Aes) = Some Private
        \<and> ask_passphrase (demo_dialog Aes) = Some ''correct-horse'' \<and> ''correct-horse'' \<noteq> []
        \<and> ask_confirm (demo_dialog Aes) = Some ''correct-horse'' \<and> ''correct-horse'' \<noteq> []"
    by (simp add: demo_dialog_def)
  have e: "(demo_dialog Aes)\<lparr>pick_algorithm := Some Rc4\<rparr> = demo_dialog Rc4"
    by (simp add: demo_dialog_def)
  show ?thesis
    using algorithm_is_cosmetic[where L = demo and src = "demo_source"
        and dlg = "demo_dialog Aes" and alg = Rc4 and alg' = Aes and fileName' = "''hello.txt''"
        and content' = "''hello world''" and language' = "''plaintext''" and t = "''notes''"
        and pw = "''correct-horse''" and c = "''correct-horse''"] d
    by (simp add: e demo_seal_hello)
qed

text \<open>
  C10 (saving uploads plaintext). For a tracked document whose paste is fetched and whose
  file index is in range, the save command sends an update whose files are the fetched
  files with the body of the tracked file replaced by the editor's text as it is; salt
  and iv of that file, and every other file, are as fetched. The command takes no
  passphrase, platform or random source: nothing is sealed.
\<close>

theorem save_uploads_plaintext:
  assumes "getDocumentMetadata (doc_uri ed) documentMetadataMap = Some md"
      and "getPaste w (md_pasteId md) = Inr (Some obj)"
      and "md_fileIndex md < length (files obj)"
  shows "(\<exists>rest. snd (saveToPastezen w documentMetadataMap st (Some ed)) =
            GetCall (md_pasteId md)
            # UpdateCall (md_pasteId md)
                ((files obj)[md_fileIndex md :=
                    (files obj ! md_fileIndex md)\<lparr>content := doc_text ed\<rparr>])
            # rest)
       \<and> content (((files obj)[md_fileIndex md :=
                    (files obj ! md_fileIndex md)\<lparr>content := doc_text ed\<rparr>]) ! md_fileIndex md)
           = doc_text ed
       \<and> salt (((files obj)[md_fileIndex md :=
                    (files obj ! md_fileIndex md)\<lparr>content := doc_text ed\<rparr>]) ! md_fileIndex md)
           = salt (files obj ! md_fileIndex md)
       \<and> iv (((files obj)[md_fileIndex md :=
                    (files obj ! md_fileIndex md)\<lparr>content := doc_text ed\<rparr>]) ! md_fileIndex md)
           = iv (files obj ! md_fileIndex md)
       \<and> (\<forall>j. j \<noteq> md_fileIndex md \<longrightarrow>
              ((files obj)[md_fileIndex md :=
                    (files obj ! md_fileIndex md)\<lparr>content := doc_text ed\<rparr>]) ! j
              = files obj ! j)"
  using assms
  by (auto simp add: saveToPastezen_def Let_def split: sum.splits)

theorem save_uploads_plaintext_witness:
  "snd (saveToPastezen store_accepts demo_tracker nothing_cached (Some demo_editor)) =
     [GetCall ''A'',
      UpdateCall ''A'' [demo_hello\<lparr>content := ''hello again''\<rparr>, demo_second],
      InformationMessage ''Saved to Pastezen: hello.txt'', TreeRefresh]
   \<and> salt (demo_hello\<lparr>content := ''hello again''\<rparr>) = Some ''ZmVkY2JhOTg3NjU0MzIxMA==''
   \<and> iv (demo_hello\<lparr>content := ''hello again''\<rparr>) = Some ''bm9uY2UtMDAwMDAx''"
proof -
  have a: "getDocumentMetadata (doc_uri demo_editor) demo_tracker =
             Some \<lparr>md_pasteId = ''A'', md_fileIndex = 0, md_fileName = ''hello.txt'',
                    md_language = ''plaintext''\<rparr>"
    by (simp add: getDocumentMetadata_def demo_data2)
  have b: "getPaste store_accepts
             (md_pasteId \<lparr>md_pasteId = ''A'', md_fileIndex = 0, md_fileName = ''hello.txt'',
                    md_language = ''plaintext''\<rparr>) = Inr (Some demo_paste)"
    by (simp add: demo_data)
  have c: "md_fileIndex \<lparr>md_pasteId = ''A'', md_fileIndex = 0, md_fileName = ''hello.txt'',
                    md_language = ''plaintext''\<rparr> < length (files demo_paste)"
    by (simp add: demo_data)
  have run: "snd (saveToPastezen store_accepts demo_tracker nothing_cached (Some demo_editor)) =
     [GetCall ''A'',
      UpdateCall ''A'' [demo_hello\<lparr>content := ''hello again''\<rparr>, demo_second],
      InformationMessage ''Saved to Pastezen: hello.txt'', TreeRefresh]"
    by (simp add: saveToPastezen_def getDocumentMetadata_def demo_data2 Let_def store_accepts_def
        demo_paste_def)
  show ?thesis
    using save_uploads_plaintext[OF a b c, of nothing_cached] run
    by (simp add: demo_paste_def demo_hello_def)
qed

end
